theory Spec2Isabelle
  imports Main "HOL-Library.Sublist" "HOL-Library.Word"
begin

section \<open>Go values used by the service\<close>

text \<open>
  A Go \<open>string\<close> is a sequence of bytes; \<open>len\<close> counts bytes and \<open>s[i]\<close> reads one.
  It is modelled as \<open>string\<close> (a list of 8-bit characters), with \<open>length\<close> for \<open>len\<close>.
  A \<open>time.Time\<close> is modelled as an \<open>int\<close>: nanoseconds on the time line, counted
  from Go's zero instant, so that the zero value of the type is \<open>0\<close>.
\<close>

type_synonym time = int

subsection \<open>Errors: \<open>errors.New\<close>, \<open>fmt.Errorf\<close>, \<open>errors.Is\<close>, \<open>errors.As\<close>\<close>

text \<open>
  The exception types of the DynamoDB SDK that \<open>HandleDynamoDBError\<close> looks for
  with \<open>errors.As\<close>.
\<close>

datatype aws_exception =
    ResourceNotFoundException
  | ConditionalCheckFailedException
  | ProvisionedThroughputExceededException
  | ResourceInUseException
  | InternalServerError
  | ValidationException

text \<open>
  Every error value the service handles. The first five are the sentinel variables of
  package \<open>models\<close>, the next five those of package \<open>repository\<close> (each a distinct
  \<open>errors.New\<close> value, compared by identity). \<open>AwsError k m\<close> is an SDK exception of type
  \<open>k\<close> with message \<open>m\<close>; \<open>OtherError m\<close> is any other leaf error with text \<open>m\<close>;
  \<open>Errorf p e s\<close> is \<open>fmt.Errorf\<close> with one \<open>%w\<close> verb: it wraps \<open>e\<close>, and its text is
  \<open>p\<close>, then the text of \<open>e\<close>, then \<open>s\<close>.
\<close>

datatype error =
    ErrEmptyName
  | ErrEmptyDescription
  | ErrInvalidStatus
  | ErrNameTooLong
  | ErrDescriptionTooLong
  | ErrItemNotFound
  | ErrItemAlreadyExists
  | ErrInvalidInput
  | ErrConnectionFailed
  | ErrOperationFailed
  | AwsError aws_exception string
  | OtherError string
  | Errorf string error string

fun aws_ErrorCode :: "aws_exception \<Rightarrow> string" where
  "aws_ErrorCode ResourceNotFoundException = ''ResourceNotFoundException''"
| "aws_ErrorCode ConditionalCheckFailedException = ''ConditionalCheckFailedException''"
| "aws_ErrorCode ProvisionedThroughputExceededException = ''ProvisionedThroughputExceededException''"
| "aws_ErrorCode ResourceInUseException = ''ResourceInUseException''"
| "aws_ErrorCode InternalServerError = ''InternalServerError''"
| "aws_ErrorCode ValidationException = ''ValidationException''"

text \<open>The method \<open>Error()\<close>: the text of an error.\<close>

fun Error_text :: "error \<Rightarrow> string" where
  "Error_text ErrEmptyName = ''name cannot be empty''"
| "Error_text ErrEmptyDescription = ''description cannot be empty''"
| "Error_text ErrInvalidStatus = ''status must be one of: active, inactive, pending''"
| "Error_text ErrNameTooLong = ''name cannot exceed 100 characters''"
| "Error_text ErrDescriptionTooLong = ''description cannot exceed 500 characters''"
| "Error_text ErrItemNotFound = ''item not found''"
| "Error_text ErrItemAlreadyExists = ''item already exists''"
| "Error_text ErrInvalidInput = ''invalid input''"
| "Error_text ErrConnectionFailed = ''database connection failed''"
| "Error_text ErrOperationFailed = ''database operation failed''"
| "Error_text (AwsError k m) = aws_ErrorCode k @ '': '' @ m"
| "Error_text (OtherError m) = m"
| "Error_text (Errorf p e s) = p @ Error_text e @ s"

text \<open>
  \<open>errors.Is err target\<close>, for a sentinel \<open>target\<close>: walk the chain of wrapped errors
  and compare each link with the target. A wrapper made by \<open>fmt.Errorf\<close> is never
  itself a sentinel, so the walk goes on to what it wraps.
\<close>

fun errors_Is :: "error \<Rightarrow> error \<Rightarrow> bool" where
  "errors_Is (Errorf p e s) target = errors_Is e target"
| "errors_Is e target = (e = target)"

text \<open>\<open>errors.As err &x\<close> for \<open>x\<close> of exception type \<open>k\<close>: is there such a link in the chain.\<close>

fun errors_As :: "error \<Rightarrow> aws_exception \<Rightarrow> bool" where
  "errors_As (AwsError k' m) k = (k' = k)"
| "errors_As (Errorf p e s) k = errors_As e k"
| "errors_As e k = False"

section \<open>Package repository: the error translator (errors.go)\<close>

text \<open>
  \<open>containsSubstring\<close>: the loop \<open>for i := 0; i <= len(s)-len(substr); i++\<close> comparing the
  slice \<open>s[i:i+len(substr)]\<close> with \<open>substr\<close>. It is only called with
  \<open>len(s) > len(substr)\<close>, so the bound does not underflow.
\<close>

function containsSubstring_loop :: "string \<Rightarrow> string \<Rightarrow> nat \<Rightarrow> bool" where
  "containsSubstring_loop s substr i =
     (if i + length substr \<le> length s
      then (if take (length substr) (drop i s) = substr then True
            else containsSubstring_loop s substr (i + 1))
      else False)"
  by pat_completeness auto
termination
  by (relation "measure (\<lambda>(s, substr, i). Suc (length s) - i)") auto

declare containsSubstring_loop.simps [simp del]

definition containsSubstring :: "string \<Rightarrow> string \<Rightarrow> bool" where
  "containsSubstring s substr = containsSubstring_loop s substr 0"

definition repository_contains :: "string \<Rightarrow> string \<Rightarrow> bool" where
  "repository_contains s substr \<longleftrightarrow>
     length s \<ge> length substr \<and>
     (s = substr \<or>
      (length s > length substr \<and>
       (take (length substr) s = substr \<or>
        drop (length s - length substr) s = substr \<or>
        containsSubstring s substr)))"

definition validationKeywords :: "string list" where
  "validationKeywords =
     [''ValidationException'', ''validation'', ''invalid'', ''malformed'', ''bad request'']"

fun containsValidationError_loop :: "string \<Rightarrow> string list \<Rightarrow> bool" where
  "containsValidationError_loop errMsg [] = False"
| "containsValidationError_loop errMsg (keyword # rest) =
     (if length errMsg > 0 \<and> repository_contains errMsg keyword then True
      else containsValidationError_loop errMsg rest)"

definition containsValidationError :: "string \<Rightarrow> bool" where
  "containsValidationError errMsg = containsValidationError_loop errMsg validationKeywords"

text \<open>
  \<open>HandleDynamoDBError\<close>. A Go \<open>error\<close> may be nil: the argument and the result are
  options. The \<open>switch\<close> takes the first case that matches.
\<close>

definition HandleDynamoDBError_nonnil :: "error \<Rightarrow> error" where
  "HandleDynamoDBError_nonnil err =
     (if errors_As err ResourceNotFoundException then
        Errorf [] ErrItemNotFound ('': '' @ Error_text err)
      else if errors_As err ConditionalCheckFailedException then
        Errorf [] ErrItemAlreadyExists '': conditional check failed''
      else if errors_As err ProvisionedThroughputExceededException then
        Errorf [] ErrOperationFailed '': throughput exceeded''
      else if errors_As err ResourceInUseException then
        Errorf [] ErrOperationFailed '': resource in use''
      else if errors_As err InternalServerError then
        Errorf [] ErrOperationFailed '': internal server error''
      else if containsValidationError (Error_text err) then
        Errorf [] ErrInvalidInput ('': '' @ Error_text err)
      else
        Errorf [] ErrOperationFailed ('': '' @ Error_text err))"

definition HandleDynamoDBError :: "error option \<Rightarrow> error option" where
  "HandleDynamoDBError err =
     (case err of None \<Rightarrow> None | Some e \<Rightarrow> Some (HandleDynamoDBError_nonnil e))"

definition IsNotFoundError :: "error \<Rightarrow> bool" where
  "IsNotFoundError err = errors_Is err ErrItemNotFound"

definition IsConflictError :: "error \<Rightarrow> bool" where
  "IsConflictError err = errors_Is err ErrItemAlreadyExists"

definition IsValidationError :: "error \<Rightarrow> bool" where
  "IsValidationError err = errors_Is err ErrInvalidInput"

definition IsConnectionError :: "error \<Rightarrow> bool" where
  "IsConnectionError err = errors_Is err ErrConnectionFailed"

definition IsOperationError :: "error \<Rightarrow> bool" where
  "IsOperationError err = errors_Is err ErrOperationFailed"

section \<open>Package handlers: the error taxonomy (errors.go)\<close>

datatype ErrorType =
    ErrorTypeValidation
  | ErrorTypeNotFound
  | ErrorTypeConflict
  | ErrorTypeDatabase
  | ErrorTypeSystem
  | ErrorTypeAuth
  | ErrorTypeRate

fun ErrorType_string :: "ErrorType \<Rightarrow> string" where
  "ErrorType_string ErrorTypeValidation = ''validation''"
| "ErrorType_string ErrorTypeNotFound = ''not_found''"
| "ErrorType_string ErrorTypeConflict = ''conflict''"
| "ErrorType_string ErrorTypeDatabase = ''database''"
| "ErrorType_string ErrorTypeSystem = ''system''"
| "ErrorType_string ErrorTypeAuth = ''authentication''"
| "ErrorType_string ErrorTypeRate = ''rate_limit''"

datatype ErrorCode =
    CodeInvalidRequest
  | CodeMissingField
  | CodeInvalidFormat
  | CodeValueTooLong
  | CodeInvalidValue
  | CodeNotFound
  | CodeAlreadyExists
  | CodeDatabaseError
  | CodeConnectionError
  | CodeOperationFailed
  | CodeThroughputExceeded
  | CodeInternalError
  | CodeServiceUnavailable
  | CodeTimeout
  | CodeUnauthorized
  | CodeForbidden
  | CodeRateLimitExceeded

fun ErrorCode_string :: "ErrorCode \<Rightarrow> string" where
  "ErrorCode_string CodeInvalidRequest = ''INVALID_REQUEST''"
| "ErrorCode_string CodeMissingField = ''MISSING_FIELD''"
| "ErrorCode_string CodeInvalidFormat = ''INVALID_FORMAT''"
| "ErrorCode_string CodeValueTooLong = ''VALUE_TOO_LONG''"
| "ErrorCode_string CodeInvalidValue = ''INVALID_VALUE''"
| "ErrorCode_string CodeNotFound = ''NOT_FOUND''"
| "ErrorCode_string CodeAlreadyExists = ''ALREADY_EXISTS''"
| "ErrorCode_string CodeDatabaseError = ''DATABASE_ERROR''"
| "ErrorCode_string CodeConnectionError = ''CONNECTION_ERROR''"
| "ErrorCode_string CodeOperationFailed = ''OPERATION_FAILED''"
| "ErrorCode_string CodeThroughputExceeded = ''THROUGHPUT_EXCEEDED''"
| "ErrorCode_string CodeInternalError = ''INTERNAL_ERROR''"
| "ErrorCode_string CodeServiceUnavailable = ''SERVICE_UNAVAILABLE''"
| "ErrorCode_string CodeTimeout = ''TIMEOUT''"
| "ErrorCode_string CodeUnauthorized = ''UNAUTHORIZED''"
| "ErrorCode_string CodeForbidden = ''FORBIDDEN''"
| "ErrorCode_string CodeRateLimitExceeded = ''RATE_LIMIT_EXCEEDED''"

text \<open>The status constants of \<open>net/http\<close> that the handlers use.\<close>

definition StatusOK :: nat where "StatusOK = 200"
definition StatusCreated :: nat where "StatusCreated = 201"
definition StatusBadRequest :: nat where "StatusBadRequest = 400"
definition StatusNotFound :: nat where "StatusNotFound = 404"
definition StatusConflict :: nat where "StatusConflict = 409"
definition StatusTooManyRequests :: nat where "StatusTooManyRequests = 429"
definition StatusInternalServerError :: nat where "StatusInternalServerError = 500"
definition StatusServiceUnavailable :: nat where "StatusServiceUnavailable = 503"

record APIError =
  Type :: ErrorType
  Code :: ErrorCode
  Message :: string
  Details :: string
  StatusCode :: nat
  Cause :: "error option"

definition NewValidationError :: "ErrorCode \<Rightarrow> string \<Rightarrow> string list \<Rightarrow> APIError" where
  "NewValidationError code message details =
     \<lparr>Type = ErrorTypeValidation, Code = code, Message = message,
      Details = (case details of [] \<Rightarrow> [] | d # _ \<Rightarrow> d),
      StatusCode = StatusBadRequest, Cause = None\<rparr>"

subsection \<open>Keyword search in messages\<close>

text \<open>\<open>toLower\<close>: bytes \<open>'A'\<close> to \<open>'Z'\<close> are moved up by 32, all other bytes are kept.\<close>

definition toLower :: "string \<Rightarrow> string" where
  "toLower s =
     map (\<lambda>b. if of_char (CHR ''A'') \<le> (of_char b :: nat) \<and> (of_char b :: nat) \<le> of_char (CHR ''Z'')
              then char_of (of_char b + (32::nat)) else b) s"

text \<open>
  \<open>findSubstring\<close>: the outer loop over start positions \<open>i\<close> and the inner loop over
  \<open>j\<close>, which stops at the first byte that differs.
\<close>

function match_loop :: "string \<Rightarrow> string \<Rightarrow> nat \<Rightarrow> nat \<Rightarrow> bool" where
  "match_loop s substr i j =
     (if j < length substr
      then (if s ! (i + j) \<noteq> substr ! j then False else match_loop s substr i (j + 1))
      else True)"
  by pat_completeness auto
termination
  by (relation "measure (\<lambda>(s, substr, i, j). length substr - j)") auto

declare match_loop.simps [simp del]

function findSubstring_loop :: "string \<Rightarrow> string \<Rightarrow> nat \<Rightarrow> int" where
  "findSubstring_loop s substr i =
     (if i + length substr \<le> length s
      then (if match_loop s substr i 0 then int i else findSubstring_loop s substr (i + 1))
      else - 1)"
  by pat_completeness auto
termination
  by (relation "measure (\<lambda>(s, substr, i). Suc (length s) - i)") auto

declare findSubstring_loop.simps [simp del]

definition findSubstring :: "string \<Rightarrow> string \<Rightarrow> int" where
  "findSubstring s substr =
     (if length substr = 0 then 0
      else if length substr > length s then - 1
      else findSubstring_loop s substr 0)"

definition contains :: "string \<Rightarrow> string \<Rightarrow> bool" where
  "contains s substr \<longleftrightarrow> length s \<ge> length substr \<and> findSubstring s substr \<ge> 0"

fun containsAnyKeyword_loop :: "string \<Rightarrow> string list \<Rightarrow> bool" where
  "containsAnyKeyword_loop msgLower [] = False"
| "containsAnyKeyword_loop msgLower (keyword # rest) =
     (if contains msgLower (toLower keyword) then True
      else containsAnyKeyword_loop msgLower rest)"

definition containsAnyKeyword :: "string \<Rightarrow> string list \<Rightarrow> bool" where
  "containsAnyKeyword message keywords = containsAnyKeyword_loop (toLower message) keywords"

definition containsThroughputError :: "string \<Rightarrow> bool" where
  "containsThroughputError errMsg =
     containsAnyKeyword errMsg [''throughput'', ''capacity'', ''throttling'', ''rate'']"

definition containsError :: "string \<Rightarrow> string list \<Rightarrow> bool" where
  "containsError errMsg keywords = containsAnyKeyword errMsg keywords"

subsection \<open>\<open>MapRepositoryError\<close> and \<open>MapValidationError\<close>\<close>

definition MapRepositoryError_nonnil :: "error \<Rightarrow> APIError" where
  "MapRepositoryError_nonnil err =
     (if IsNotFoundError err then
        \<lparr>Type = ErrorTypeNotFound, Code = CodeNotFound, Message = ''Resource not found'',
         Details = Error_text err, StatusCode = StatusNotFound, Cause = Some err\<rparr>
      else if IsConflictError err then
        \<lparr>Type = ErrorTypeConflict, Code = CodeAlreadyExists, Message = ''Resource already exists'',
         Details = Error_text err, StatusCode = StatusConflict, Cause = Some err\<rparr>
      else if IsValidationError err then
        \<lparr>Type = ErrorTypeValidation, Code = CodeInvalidRequest, Message = ''Invalid input provided'',
         Details = Error_text err, StatusCode = StatusBadRequest, Cause = Some err\<rparr>
      else if IsConnectionError err then
        \<lparr>Type = ErrorTypeDatabase, Code = CodeConnectionError, Message = ''Database connection failed'',
         Details = ''Unable to connect to the database'',
         StatusCode = StatusServiceUnavailable, Cause = Some err\<rparr>
      else if IsOperationError err then
        (if containsThroughputError (Error_text err) then
           \<lparr>Type = ErrorTypeDatabase, Code = CodeThroughputExceeded,
            Message = ''Database throughput exceeded'',
            Details = ''Please retry your request after a brief delay'',
            StatusCode = StatusTooManyRequests, Cause = Some err\<rparr>
         else
           \<lparr>Type = ErrorTypeDatabase, Code = CodeDatabaseError,
            Message = ''Database operation failed'',
            Details = Error_text err, StatusCode = StatusInternalServerError, Cause = Some err\<rparr>)
      else
        \<lparr>Type = ErrorTypeSystem, Code = CodeInternalError,
         Message = ''An unexpected error occurred'', Details = ''Please try again later'',
         StatusCode = StatusInternalServerError, Cause = Some err\<rparr>)"

definition MapRepositoryError :: "error option \<Rightarrow> APIError option" where
  "MapRepositoryError err =
     (case err of None \<Rightarrow> None | Some e \<Rightarrow> Some (MapRepositoryError_nonnil e))"

definition MapValidationError_nonnil :: "error \<Rightarrow> APIError" where
  "MapValidationError_nonnil err =
     (let message = Error_text err;
          code = (if containsError message [''empty'', ''required''] then CodeMissingField
                  else if containsError message [''too long'', ''exceed''] then CodeValueTooLong
                  else if containsError message [''invalid'', ''format''] then CodeInvalidFormat
                  else if containsError message [''status'', ''one of''] then CodeInvalidValue
                  else CodeInvalidRequest)
      in \<lparr>Type = ErrorTypeValidation, Code = code, Message = message, Details = [],
          StatusCode = StatusBadRequest, Cause = Some err\<rparr>)"

definition MapValidationError :: "error option \<Rightarrow> APIError option" where
  "MapValidationError err =
     (case err of None \<Rightarrow> None | Some e \<Rightarrow> Some (MapValidationError_nonnil e))"

section \<open>Package models (item.go)\<close>

record Item =
  ID :: string
  Name :: string
  Description :: string
  CreatedAt :: time
  UpdatedAt :: time
  Status :: string

record CreateItemRequest =
  cr_Name :: string
  cr_Description :: string

record UpdateItemRequest =
  ur_Name :: string
  ur_Description :: string
  ur_Status :: string

record ErrorInfo =
  ei_Code :: string
  ei_Message :: string
  ei_Type :: string
  ei_Details :: string

text \<open>
  The field \<open>Data interface{}\<close> of \<open>APIResponse\<close> holds either an item or a
  \<open>map[string]interface{}\<close>; \<open>None\<close> is the nil interface, which \<open>omitempty\<close> leaves
  out of the JSON text.
\<close>

datatype json = JString string | JBool bool | JInt int | JItems "Item list"

datatype payload = DataItem Item | DataMap "string \<rightharpoonup> json"

record APIResponse =
  Success :: bool
  Data :: "payload option"
  Error :: "ErrorInfo option"

subsection \<open>\<open>strings.TrimSpace\<close>\<close>

text \<open>
  \<open>strings.TrimSpace\<close> removes the leading and trailing white space of a string, white
  space being what \<open>unicode.IsSpace\<close> accepts: the bytes \<open>\t \n \v \f \r\<close> and the
  blank, and, in UTF-8, U+0085, U+00A0, U+1680, U+2000 to U+200A, U+2028, U+2029, U+202F,
  U+205F and U+3000. \<open>isSpaceRune bs\<close> says that the bytes \<open>bs\<close> are the encoding of one
  such code point.
\<close>

definition isSpaceRune :: "string \<Rightarrow> bool" where
  "isSpaceRune bs =
     (case (map of_char bs :: nat list) of
        [b] \<Rightarrow> b = 9 \<or> b = 10 \<or> b = 11 \<or> b = 12 \<or> b = 13 \<or> b = 32
      | [a, b] \<Rightarrow> a = 0xC2 \<and> (b = 0x85 \<or> b = 0xA0)
      | [a, b, c] \<Rightarrow>
          (a = 0xE1 \<and> b = 0x9A \<and> c = 0x80) \<or>
          (a = 0xE2 \<and> b = 0x80 \<and> ((0x80 \<le> c \<and> c \<le> 0x8A) \<or> c = 0xA8 \<or> c = 0xA9 \<or> c = 0xAF)) \<or>
          (a = 0xE2 \<and> b = 0x81 \<and> c = 0x9F) \<or>
          (a = 0xE3 \<and> b = 0x80 \<and> c = 0x80)
      | _ \<Rightarrow> False)"

text \<open>The width in bytes of the white-space code point a string starts with; 0 if none.\<close>

definition leadingSpace :: "string \<Rightarrow> nat" where
  "leadingSpace s =
     (if isSpaceRune (take 1 s) then 1
      else if isSpaceRune (take 2 s) then 2
      else if isSpaceRune (take 3 s) then 3
      else 0)"

text \<open>The width in bytes of the white-space code point a string ends with; 0 if none.\<close>

definition trailingSpace :: "string \<Rightarrow> nat" where
  "trailingSpace s =
     (if isSpaceRune (drop (length s - 1) s) then 1
      else if isSpaceRune (drop (length s - 2) s) then 2
      else if isSpaceRune (drop (length s - 3) s) then 3
      else 0)"

fun trimLeft :: "string \<Rightarrow> string" where
  "trimLeft [] = []"
| "trimLeft (c # cs) =
     (if leadingSpace (c # cs) = 0 then c # cs
      else trimLeft (drop (leadingSpace (c # cs) - 1) cs))"

function trimRight :: "string \<Rightarrow> string" where
  "trimRight s =
     (if s = [] \<or> trailingSpace s = 0 then s
      else trimRight (take (length s - trailingSpace s) s))"
  by pat_completeness auto
termination
  by (relation "measure length") auto

declare trimRight.simps [simp del]

definition TrimSpace :: "string \<Rightarrow> string" where
  "TrimSpace s = trimRight (trimLeft s)"

subsection \<open>Validation\<close>

fun isValidStatus_loop :: "string \<Rightarrow> string list \<Rightarrow> bool" where
  "isValidStatus_loop status [] = False"
| "isValidStatus_loop status (validStatus # rest) =
     (if status = validStatus then True else isValidStatus_loop status rest)"

definition isValidStatus :: "string \<Rightarrow> bool" where
  "isValidStatus status = isValidStatus_loop status [''active'', ''inactive'', ''pending'']"

text \<open>
  The \<open>Validate\<close> methods return an error that may be nil: \<open>None\<close> is nil. Each
  \<open>return\<close> of the source is one branch, in the order of the source; in the update
  validator the test that a field is present, which encloses the two checks of the field
  in the source, is repeated in each of them.
\<close>

definition CreateItemRequest_Validate :: "CreateItemRequest \<Rightarrow> error option" where
  "CreateItemRequest_Validate r =
     (if TrimSpace (cr_Name r) = [] then Some ErrEmptyName
      else if length (cr_Name r) > 100 then Some ErrNameTooLong
      else if TrimSpace (cr_Description r) = [] then Some ErrEmptyDescription
      else if length (cr_Description r) > 500 then Some ErrDescriptionTooLong
      else None)"

definition UpdateItemRequest_Validate :: "UpdateItemRequest \<Rightarrow> error option" where
  "UpdateItemRequest_Validate r =
     (if ur_Name r \<noteq> [] \<and> TrimSpace (ur_Name r) = [] then Some ErrEmptyName
      else if ur_Name r \<noteq> [] \<and> length (ur_Name r) > 100 then Some ErrNameTooLong
      else if ur_Description r \<noteq> [] \<and> TrimSpace (ur_Description r) = [] then Some ErrEmptyDescription
      else if ur_Description r \<noteq> [] \<and> length (ur_Description r) > 500 then Some ErrDescriptionTooLong
      else if ur_Status r \<noteq> [] \<and> \<not> isValidStatus (ur_Status r) then Some ErrInvalidStatus
      else None)"

definition Item_Validate :: "Item \<Rightarrow> error option" where
  "Item_Validate i =
     (if TrimSpace (Name i) = [] then Some ErrEmptyName
      else if length (Name i) > 100 then Some ErrNameTooLong
      else if TrimSpace (Description i) = [] then Some ErrEmptyDescription
      else if length (Description i) > 500 then Some ErrDescriptionTooLong
      else if \<not> isValidStatus (Status i) then Some ErrInvalidStatus
      else None)"

text \<open>
  \<open>NewItem\<close> reads the clock once (\<open>time.Now()\<close>); the reading is the argument \<open>now\<close>.
  The identifier is left at the zero value of its type, the empty string.
\<close>

definition NewItem :: "time \<Rightarrow> string \<Rightarrow> string \<Rightarrow> Item" where
  "NewItem now name description =
     \<lparr>ID = [], Name = name, Description = description,
      CreatedAt = now, UpdatedAt = now, Status = ''active''\<rparr>"

definition UpdateFields :: "time \<Rightarrow> Item \<Rightarrow> UpdateItemRequest \<Rightarrow> Item" where
  "UpdateFields now i req =
     (let i1 = (if ur_Name req \<noteq> [] then i\<lparr>Name := ur_Name req\<rparr> else i);
          i2 = (if ur_Description req \<noteq> [] then i1\<lparr>Description := ur_Description req\<rparr> else i1);
          i3 = (if ur_Status req \<noteq> [] then i2\<lparr>Status := ur_Status req\<rparr> else i2)
      in i3\<lparr>UpdatedAt := now\<rparr>)"

section \<open>Package handlers: responses (errors.go)\<close>

text \<open>
  What a handler writes to the \<open>http.ResponseWriter\<close>: the status code and the envelope
  that is encoded as the JSON body. Encoding an envelope of this service does not fail, so
  the fallback branch of \<open>writeJSONResponse\<close> is not taken. Logging is left out.
\<close>

record Response =
  resp_StatusCode :: nat
  resp_Body :: APIResponse

definition writeJSONResponse :: "nat \<Rightarrow> APIResponse \<Rightarrow> Response" where
  "writeJSONResponse statusCode data = \<lparr>resp_StatusCode = statusCode, resp_Body = data\<rparr>"

definition WriteErrorResponse :: "APIError \<Rightarrow> Response" where
  "WriteErrorResponse apiErr =
     (let errorInfo = \<lparr>ei_Code = ErrorCode_string (Code apiErr), ei_Message = Message apiErr,
                       ei_Type = ErrorType_string (Type apiErr), ei_Details = Details apiErr\<rparr>;
          response = \<lparr>Success = False, Data = None, Error = Some errorInfo\<rparr>
      in writeJSONResponse (StatusCode apiErr) response)"

text \<open>
  The next two are called by the handlers with a non-nil error only (a nil one would
  make \<open>WriteErrorResponse\<close> dereference a nil pointer), so they take an \<open>error\<close>.
\<close>

definition WriteValidationErrorResponse :: "error \<Rightarrow> Response" where
  "WriteValidationErrorResponse err = WriteErrorResponse (MapValidationError_nonnil err)"

definition WriteRepositoryErrorResponse :: "error \<Rightarrow> Response" where
  "WriteRepositoryErrorResponse err = WriteErrorResponse (MapRepositoryError_nonnil err)"

definition WriteJSONParseErrorResponse :: "error \<Rightarrow> Response" where
  "WriteJSONParseErrorResponse err =
     WriteErrorResponse
       \<lparr>Type = ErrorTypeValidation, Code = CodeInvalidFormat, Message = ''Invalid JSON format'',
        Details = ''Request body contains malformed JSON'',
        StatusCode = StatusBadRequest, Cause = Some err\<rparr>"

definition WriteMissingParameterErrorResponse :: "string \<Rightarrow> Response" where
  "WriteMissingParameterErrorResponse parameter =
     WriteErrorResponse
       \<lparr>Type = ErrorTypeValidation, Code = CodeMissingField,
        Message = parameter @ '' is required'',
        Details = ''The required parameter '' @ [CHR 0x27] @ parameter @ [CHR 0x27] @
                  '' is missing from the request'',
        StatusCode = StatusBadRequest, Cause = None\<rparr>"

section \<open>Package handlers: the request handlers (handlers.go)\<close>

subsection \<open>What the handlers read from the request\<close>

text \<open>
  \<open>strconv.Atoi\<close> on a 64-bit platform (the build sets \<open>GOARCH=amd64\<close>): an optional
  sign, then one or more decimal digits, and the value must fit the type \<open>int\<close>.
  \<open>parseDecimal\<close> is the scan (the integer the text denotes, of any size); \<open>Atoi\<close> adds
  the range check. \<open>None\<close> stands for the \<open>*NumError\<close> of either kind (syntax, range):
  the handler only tests it against nil.
\<close>

fun parseDigits :: "string \<Rightarrow> nat \<Rightarrow> nat option" where
  "parseDigits [] n = Some n"
| "parseDigits (ch # rest) n =
     (if of_char (CHR ''0'') \<le> (of_char ch :: nat) \<and> (of_char ch :: nat) \<le> of_char (CHR ''9'')
      then parseDigits rest (n * 10 + (of_char ch - of_char (CHR ''0'')))
      else None)"

definition parseDecimal :: "string \<Rightarrow> int option" where
  "parseDecimal s =
     (case s of
        [] \<Rightarrow> None
      | c # cs \<Rightarrow>
          (let neg = (c = CHR ''-'');
               ds = (if c = CHR ''-'' \<or> c = CHR ''+'' then cs else s)
           in if ds = [] then None
              else (case parseDigits ds 0 of
                      None \<Rightarrow> None
                    | Some n \<Rightarrow> Some (if neg then - int n else int n))))"

definition Atoi :: "string \<Rightarrow> int option" where
  "Atoi s =
     (case parseDecimal s of
        None \<Rightarrow> None
      | Some n \<Rightarrow> (if - (2 ^ 63) \<le> n \<and> n \<le> 2 ^ 63 - 1 then Some n else None))"

text \<open>
  \<open>r.URL.Query()\<close> is a \<open>url.Values\<close>, a map from a key to its list of values;
  \<open>Get\<close> returns the first value of the key, or the empty string.
\<close>

type_synonym Values = "string \<rightharpoonup> string list"

definition Values_Get :: "Values \<Rightarrow> string \<Rightarrow> string" where
  "Values_Get v key = (case v key of None \<Rightarrow> [] | Some [] \<Rightarrow> [] | Some (x # _) \<Rightarrow> x)"

subsection \<open>The storage port\<close>

record ListItemsOptions =
  Limit :: int
  LastEvaluatedKey :: "string option"

record ListItemsResult =
  Items :: "Item list"
  res_LastEvaluatedKey :: "string option"
  HasMore :: bool

text \<open>
  The interface \<open>ItemRepository\<close>. A handler holds a repository and calls one of its
  methods; the model passes that method to the handler as a function on the state \<open>'s\<close>
  of the store, which it returns updated. A Go result \<open>(*Item, error)\<close> is a sum; the
  result \<open>error\<close> alone is an option; \<open>CreateItem\<close> also returns the item it was given a
  pointer to, as the method left it. The \<open>context.Context\<close> is left out. The pagination
  key is kept opaque.
\<close>

type_synonym 's repo_CreateItem = "Item \<Rightarrow> 's \<Rightarrow> (error option \<times> Item) \<times> 's"
type_synonym 's repo_GetItem = "string \<Rightarrow> 's \<Rightarrow> (error + Item) \<times> 's"
type_synonym 's repo_ListItems = "ListItemsOptions \<Rightarrow> 's \<Rightarrow> (error + ListItemsResult) \<times> 's"
type_synonym 's repo_UpdateItem = "string \<Rightarrow> UpdateItemRequest \<Rightarrow> 's \<Rightarrow> (error + Item) \<times> 's"
type_synonym 's repo_DeleteItem = "string \<Rightarrow> 's \<Rightarrow> error option \<times> 's"

subsection \<open>The handlers\<close>

text \<open>
  \<open>json.NewDecoder(r.Body).Decode(&req)\<close> is done by the library: a handler is given its
  outcome, the error or the decoded request. \<open>chi.URLParam(r, "id")\<close> is the argument
  \<open>itemID\<close>. Every handler returns the response and the state of the store.
\<close>

definition ItemHandler_HealthCheck :: Response where
  "ItemHandler_HealthCheck =
     writeJSONResponse StatusOK
       \<lparr>Success = True,
        Data = Some (DataMap [''status'' \<mapsto> JString ''healthy'',
                              ''service'' \<mapsto> JString ''FIS Playground API'']),
        Error = None\<rparr>"

text \<open>
  \<open>ClientManager.HealthCheck\<close>, given the outcome of the \<open>DescribeTable\<close> call.
\<close>

definition ClientManager_HealthCheck :: "error option \<Rightarrow> error option" where
  "ClientManager_HealthCheck describeErr =
     (case describeErr of
        Some err \<Rightarrow> Some (Errorf ''DynamoDB health check failed: '' err [])
      | None \<Rightarrow> None)"

text \<open>
  \<open>HealthCheckDB\<close>. The argument tells what the type assertion
  \<open>h.repo.(*repository.DynamoDBRepository)\<close> finds: \<open>None\<close> if the repository is of
  another type, otherwise the table name and the outcome of \<open>DescribeTable\<close>.
\<close>

definition getTableName :: "(string \<times> error option) option \<Rightarrow> string" where
  "getTableName dynamoRepo = (case dynamoRepo of Some (tableName, _) \<Rightarrow> tableName | None \<Rightarrow> ''unknown'')"

definition ItemHandler_HealthCheckDB :: "(string \<times> error option) option \<Rightarrow> Response" where
  "ItemHandler_HealthCheckDB dynamoRepo =
     (let (dynamoDBStatus, dynamoDBMessage) =
            (case dynamoRepo of
               Some (tableName, describeErr) \<Rightarrow>
                 (case ClientManager_HealthCheck describeErr of
                    Some err \<Rightarrow> (''unhealthy'', Error_text err)
                  | None \<Rightarrow> (''healthy'', ''Connected''))
             | None \<Rightarrow> (''unknown'', ''Repository type not recognized''));
          success = (dynamoDBStatus = ''healthy'');
          statusCode = (if \<not> success then StatusServiceUnavailable else StatusOK)
      in writeJSONResponse statusCode
           \<lparr>Success = success,
            Data = Some (DataMap [''status'' \<mapsto> JString dynamoDBStatus,
                                  ''service'' \<mapsto> JString ''DynamoDB'',
                                  ''message'' \<mapsto> JString dynamoDBMessage,
                                  ''tableName'' \<mapsto> JString (getTableName dynamoRepo)]),
            Error = None\<rparr>)"

definition ItemHandler_CreateItem ::
  "'s repo_CreateItem \<Rightarrow> time \<Rightarrow> error + CreateItemRequest \<Rightarrow> 's \<Rightarrow> Response \<times> 's" where
  "ItemHandler_CreateItem repo_CreateItem now body s =
     (case body of
        Inl err \<Rightarrow> (WriteJSONParseErrorResponse err, s)
      | Inr createReq \<Rightarrow>
          (case CreateItemRequest_Validate createReq of
             Some err \<Rightarrow> (WriteValidationErrorResponse err, s)
           | None \<Rightarrow>
               (case repo_CreateItem (NewItem now (cr_Name createReq) (cr_Description createReq)) s of
                  ((Some err, item), s') \<Rightarrow> (WriteRepositoryErrorResponse err, s')
                | ((None, item), s') \<Rightarrow>
                    (writeJSONResponse StatusCreated
                       \<lparr>Success = True, Data = Some (DataItem item), Error = None\<rparr>, s'))))"

definition ItemHandler_GetItem :: "'s repo_GetItem \<Rightarrow> string \<Rightarrow> 's \<Rightarrow> Response \<times> 's" where
  "ItemHandler_GetItem repo_GetItem itemID s =
     (if itemID = [] then (WriteMissingParameterErrorResponse ''Item ID'', s)
      else (case repo_GetItem itemID s of
              (Inl err, s') \<Rightarrow> (WriteRepositoryErrorResponse err, s')
            | (Inr item, s') \<Rightarrow>
                (writeJSONResponse StatusOK
                   \<lparr>Success = True, Data = Some (DataItem item), Error = None\<rparr>, s')))"

text \<open>
  \<open>ListItems\<close>: the first part computes the options or the error that ends the request;
  a \<open>next_token\<close> parameter is only logged.
\<close>

definition ListItems_options :: "Values \<Rightarrow> APIError + ListItemsOptions" where
  "ListItems_options query =
     (let limitStr = Values_Get query ''limit''
      in if limitStr \<noteq> [] then
           (case Atoi limitStr of
              None \<Rightarrow>
                Inl (NewValidationError CodeInvalidFormat ''Invalid limit parameter''
                       [''Limit must be a valid integer''])
            | Some limit \<Rightarrow>
                if limit \<le> 0 \<or> limit > 100 then
                  Inl (NewValidationError CodeInvalidValue ''Invalid limit value''
                         [''Limit must be between 1 and 100''])
                else Inr \<lparr>Limit = limit, LastEvaluatedKey = None\<rparr>)
         else Inr \<lparr>Limit = 50, LastEvaluatedKey = None\<rparr>)"

definition ListItems_responseData :: "ListItemsResult \<Rightarrow> string \<rightharpoonup> json" where
  "ListItems_responseData result =
     (let responseData = [''items'' \<mapsto> JItems (Items result),
                          ''has_more'' \<mapsto> JBool (HasMore result),
                          ''count'' \<mapsto> JInt (int (length (Items result)))]
      in if HasMore result
         then responseData(''next_token'' \<mapsto> JString ''pagination_token_placeholder'')
         else responseData)"

definition ItemHandler_ListItems :: "'s repo_ListItems \<Rightarrow> Values \<Rightarrow> 's \<Rightarrow> Response \<times> 's" where
  "ItemHandler_ListItems repo_ListItems query s =
     (case ListItems_options query of
        Inl apiErr \<Rightarrow> (WriteErrorResponse apiErr, s)
      | Inr options \<Rightarrow>
          (case repo_ListItems options s of
             (Inl err, s') \<Rightarrow> (WriteRepositoryErrorResponse err, s')
           | (Inr result, s') \<Rightarrow>
               (writeJSONResponse StatusOK
                  \<lparr>Success = True, Data = Some (DataMap (ListItems_responseData result)),
                   Error = None\<rparr>, s')))"

definition ItemHandler_UpdateItem ::
  "'s repo_UpdateItem \<Rightarrow> string \<Rightarrow> error + UpdateItemRequest \<Rightarrow> 's \<Rightarrow> Response \<times> 's" where
  "ItemHandler_UpdateItem repo_UpdateItem itemID body s =
     (if itemID = [] then (WriteMissingParameterErrorResponse ''Item ID'', s)
      else (case body of
              Inl err \<Rightarrow> (WriteJSONParseErrorResponse err, s)
            | Inr updateReq \<Rightarrow>
                (case UpdateItemRequest_Validate updateReq of
                   Some err \<Rightarrow> (WriteValidationErrorResponse err, s)
                 | None \<Rightarrow>
                     (case repo_UpdateItem itemID updateReq s of
                        (Inl err, s') \<Rightarrow> (WriteRepositoryErrorResponse err, s')
                      | (Inr item, s') \<Rightarrow>
                          (writeJSONResponse StatusOK
                             \<lparr>Success = True, Data = Some (DataItem item), Error = None\<rparr>, s')))))"

definition ItemHandler_DeleteItem :: "'s repo_DeleteItem \<Rightarrow> string \<Rightarrow> 's \<Rightarrow> Response \<times> 's" where
  "ItemHandler_DeleteItem repo_DeleteItem itemID s =
     (if itemID = [] then (WriteMissingParameterErrorResponse ''Item ID'', s)
      else (case repo_DeleteItem itemID s of
              (Some err, s') \<Rightarrow> (WriteRepositoryErrorResponse err, s')
            | (None, s') \<Rightarrow>
                (writeJSONResponse StatusOK
                   \<lparr>Success = True,
                    Data = Some (DataMap [''message'' \<mapsto> JString ''Item deleted successfully'',
                                          ''id'' \<mapsto> JString itemID]),
                    Error = None\<rparr>, s')))"

section \<open>Package repository: the DynamoDB adapter (dynamodb.go)\<close>

subsection \<open>The table and the client\<close>

text \<open>
  The DynamoDB SDK and the table are outside the repository. They are modelled as the
  service uses them: a table is a map from the key attribute \<open>id\<close> to the attributes of
  the item stored under it, and a client call either changes the table or returns an
  exception. The model is of a table that can be reached: it returns the exceptions that
  follow from the request and the table (a failed condition, a missing key, an unbound
  placeholder), not those of the network or of throttling.

  \<open>attributevalue.Marshal\<close> turns a string into an \<open>S\<close> member and a \<open>time.Time\<close> into
  an \<open>S\<close> member holding its RFC 3339 text. The second kind is kept apart as
  \<open>AttributeValueMemberTime\<close>, holding the instant, so that the text need not be
  modelled. The service writes every attribute with the type of its field; where the
  two kinds meet the wrong field, \<open>UnmarshalMap\<close> returns an error in the model.
\<close>

datatype AttributeValue =
    AttributeValueMemberS string
  | AttributeValueMemberTime time

type_synonym attributes = "string \<rightharpoonup> AttributeValue"

type_synonym table = "string \<rightharpoonup> attributes"

definition MarshalMap :: "Item \<Rightarrow> attributes" where
  "MarshalMap item =
     [''id'' \<mapsto> AttributeValueMemberS (ID item),
      ''name'' \<mapsto> AttributeValueMemberS (Name item),
      ''description'' \<mapsto> AttributeValueMemberS (Description item),
      ''created_at'' \<mapsto> AttributeValueMemberTime (CreatedAt item),
      ''updated_at'' \<mapsto> AttributeValueMemberTime (UpdatedAt item),
      ''status'' \<mapsto> AttributeValueMemberS (Status item)]"

text \<open>An attribute that is missing leaves the field at its zero value.\<close>

definition unmarshalString :: "attributes \<Rightarrow> string \<Rightarrow> string option" where
  "unmarshalString av key =
     (case av key of
        None \<Rightarrow> Some []
      | Some (AttributeValueMemberS s) \<Rightarrow> Some s
      | Some (AttributeValueMemberTime t) \<Rightarrow> None)"

definition unmarshalTime :: "attributes \<Rightarrow> string \<Rightarrow> time option" where
  "unmarshalTime av key =
     (case av key of
        None \<Rightarrow> Some 0
      | Some (AttributeValueMemberTime t) \<Rightarrow> Some t
      | Some (AttributeValueMemberS s) \<Rightarrow> None)"

definition UnmarshalMap :: "attributes \<Rightarrow> error + Item" where
  "UnmarshalMap av =
     (case (unmarshalString av ''id'', unmarshalString av ''name'',
            unmarshalString av ''description'', unmarshalTime av ''created_at'',
            unmarshalTime av ''updated_at'', unmarshalString av ''status'') of
        (Some i, Some n, Some d, Some c, Some u, Some st) \<Rightarrow>
          Inr \<lparr>ID = i, Name = n, Description = d, CreatedAt = c, UpdatedAt = u, Status = st\<rparr>
      | _ \<Rightarrow> Inl (OtherError ''unmarshal failed''))"

text \<open>
  \<open>PutItem\<close> with the condition \<open>attribute_not_exists(id)\<close>: the item is stored if no
  item has its key.
\<close>

definition dynamodb_PutItem :: "attributes \<Rightarrow> table \<Rightarrow> error option \<times> table" where
  "dynamodb_PutItem item tbl =
     (case item ''id'' of
        Some (AttributeValueMemberS key) \<Rightarrow>
          (if key = [] then
             (Some (AwsError ValidationException ''The AttributeValue for a key attribute cannot contain an empty string value''), tbl)
           else if tbl key \<noteq> None then
             (Some (AwsError ConditionalCheckFailedException ''The conditional request failed''), tbl)
           else (None, tbl(key \<mapsto> item)))
      | _ \<Rightarrow>
          (Some (AwsError ValidationException ''Missing the key id in the item''), tbl))"

text \<open>
  \<open>DeleteItem\<close> with the condition \<open>attribute_exists(id)\<close>: the item is removed if
  there is one.
\<close>

definition dynamodb_DeleteItem :: "string \<Rightarrow> table \<Rightarrow> error option \<times> table" where
  "dynamodb_DeleteItem key tbl =
     (if tbl key = None then
        (Some (AwsError ConditionalCheckFailedException ''The conditional request failed''), tbl)
      else (None, tbl(key := None)))"

text \<open>
  \<open>UpdateItem\<close> with the condition \<open>attribute_exists(id)\<close> and \<open>ReturnValues\<close>
  \<open>ALL_NEW\<close>. The update expression \<open>SET a = :a, #b = :b\<close> is kept as the list of its
  assignments \<open>[(a, :a), (#b, :b)]\<close>; a name that starts with \<open>#\<close> is looked up in the
  expression attribute names, a value in the expression attribute values.
\<close>

record UpdateItemInput =
  ui_Key :: string
  ui_UpdateExpression :: "(string \<times> string) list"
  ui_ExpressionAttributeNames :: "string \<rightharpoonup> string"
  ui_ExpressionAttributeValues :: "string \<rightharpoonup> AttributeValue"

fun applySet ::
  "(string \<times> string) list \<Rightarrow> (string \<rightharpoonup> string) \<Rightarrow> (string \<rightharpoonup> AttributeValue) \<Rightarrow>
   attributes \<Rightarrow> attributes option" where
  "applySet [] names vals item = Some item"
| "applySet ((path, v) # rest) names vals item =
     (case (case path of c # _ \<Rightarrow> (if c = CHR ''#'' then names path else Some path)
                        | [] \<Rightarrow> None) of
        None \<Rightarrow> None
      | Some attr \<Rightarrow>
          (case vals v of
             None \<Rightarrow> None
           | Some av \<Rightarrow> applySet rest names vals (item(attr \<mapsto> av))))"

definition dynamodb_UpdateItem :: "UpdateItemInput \<Rightarrow> table \<Rightarrow> (error + attributes) \<times> table" where
  "dynamodb_UpdateItem input tbl =
     (case tbl (ui_Key input) of
        None \<Rightarrow>
          (case applySet (ui_UpdateExpression input) (ui_ExpressionAttributeNames input)
                  (ui_ExpressionAttributeValues input) Map.empty of
             None \<Rightarrow> (Inl (AwsError ValidationException ''Invalid UpdateExpression''), tbl)
           | Some _ \<Rightarrow>
               (Inl (AwsError ConditionalCheckFailedException ''The conditional request failed''), tbl))
      | Some old \<Rightarrow>
          (case applySet (ui_UpdateExpression input) (ui_ExpressionAttributeNames input)
                  (ui_ExpressionAttributeValues input) old of
             None \<Rightarrow> (Inl (AwsError ValidationException ''Invalid UpdateExpression''), tbl)
           | Some new \<Rightarrow> (Inr new, tbl(ui_Key input \<mapsto> new))))"

subsection \<open>\<open>uuid.New().String()\<close>\<close>

text \<open>
  A UUID is 16 bytes, modelled as a 128-bit word (first byte in the highest bits). Its
  text is the hexadecimal digits of the bytes in the groups 4-2-2-2-6, separated by
  hyphens. The value drawn by \<open>uuid.New()\<close> is an argument of \<open>CreateItem\<close>.
\<close>

definition hexDigit :: "nat \<Rightarrow> char" where
  "hexDigit n = ''0123456789abcdef'' ! (n mod 16)"

definition uuid_byte :: "128 word \<Rightarrow> nat \<Rightarrow> nat" where
  "uuid_byte u i = unat (drop_bit (8 * (15 - i)) u) mod 256"

definition encodeHex :: "128 word \<Rightarrow> nat list \<Rightarrow> string" where
  "encodeHex u idx = concat (map (\<lambda>i. [hexDigit (uuid_byte u i div 16), hexDigit (uuid_byte u i mod 16)]) idx)"

definition uuid_String :: "128 word \<Rightarrow> string" where
  "uuid_String u =
     encodeHex u [0, 1, 2, 3] @ ''-'' @ encodeHex u [4, 5] @ ''-'' @ encodeHex u [6, 7] @ ''-'' @
     encodeHex u [8, 9] @ ''-'' @ encodeHex u [10, 11, 12, 13, 14, 15]"

subsection \<open>The methods of \<open>DynamoDBRepository\<close>\<close>

text \<open>
  Marshalling an \<open>Item\<close> or a \<open>time.Time\<close> does not fail, so those error branches are
  left out. \<open>CreateItem\<close> is given the UUID that \<open>uuid.New()\<close> draws, \<open>UpdateItem\<close> the
  reading of \<open>time.Now()\<close>. The parameter \<open>id\<close> is written \<open>key\<close>. The pointer
  \<open>updates\<close> is never nil: the handler passes the address of a variable.
\<close>

definition DynamoDBRepository_CreateItem :: "128 word \<Rightarrow> table repo_CreateItem" where
  "DynamoDBRepository_CreateItem uuid item0 tbl =
     (let item = (if ID item0 = [] then item0\<lparr>ID := uuid_String uuid\<rparr> else item0)
      in case Item_Validate item of
           Some err \<Rightarrow> ((Some (Errorf [] ErrInvalidInput ('': '' @ Error_text err)), item), tbl)
         | None \<Rightarrow>
             (case dynamodb_PutItem (MarshalMap item) tbl of
                (Some err, tbl') \<Rightarrow>
                  (if errors_As err ConditionalCheckFailedException then
                     ((Some (Errorf [] ErrItemAlreadyExists '': item with this ID already exists''), item), tbl')
                   else ((Some (HandleDynamoDBError_nonnil err), item), tbl'))
              | (None, tbl') \<Rightarrow> ((None, item), tbl')))"

definition UpdateItem_input :: "time \<Rightarrow> string \<Rightarrow> UpdateItemRequest \<Rightarrow> UpdateItemInput" where
  "UpdateItem_input now key updates =
     (let updateExpression0 = [(''updated_at'', '':updated_at'')];
          values0 = [ '':updated_at'' \<mapsto> AttributeValueMemberTime now ];
          updateExpression1 = (if ur_Name updates \<noteq> [] then updateExpression0 @ [(''#name'', '':name'')]
                               else updateExpression0);
          values1 = (if ur_Name updates \<noteq> []
                     then values0('':name'' \<mapsto> AttributeValueMemberS (ur_Name updates)) else values0);
          updateExpression2 = (if ur_Description updates \<noteq> []
                               then updateExpression1 @ [(''description'', '':description'')]
                               else updateExpression1);
          values2 = (if ur_Description updates \<noteq> []
                     then values1('':description'' \<mapsto> AttributeValueMemberS (ur_Description updates))
                     else values1);
          updateExpression3 = (if ur_Status updates \<noteq> [] then updateExpression2 @ [(''#status'', '':status'')]
                               else updateExpression2);
          values3 = (if ur_Status updates \<noteq> []
                     then values2('':status'' \<mapsto> AttributeValueMemberS (ur_Status updates)) else values2);
          names0 = Map.empty;
          names1 = (if ur_Name updates \<noteq> [] then names0(''#name'' \<mapsto> ''name'') else names0);
          names2 = (if ur_Status updates \<noteq> [] then names1(''#status'' \<mapsto> ''status'') else names1)
      in \<lparr>ui_Key = key, ui_UpdateExpression = updateExpression3,
          ui_ExpressionAttributeNames = names2, ui_ExpressionAttributeValues = values3\<rparr>)"

definition DynamoDBRepository_UpdateItem :: "time \<Rightarrow> table repo_UpdateItem" where
  "DynamoDBRepository_UpdateItem now key updates tbl =
     (if key = [] then (Inl (Errorf [] ErrInvalidInput '': item ID cannot be empty''), tbl)
      else (case UpdateItemRequest_Validate updates of
              Some err \<Rightarrow> (Inl (Errorf [] ErrInvalidInput ('': '' @ Error_text err)), tbl)
            | None \<Rightarrow>
                (case dynamodb_UpdateItem (UpdateItem_input now key updates) tbl of
                   (Inl err, tbl') \<Rightarrow> (Inl (HandleDynamoDBError_nonnil err), tbl')
                 | (Inr attrs, tbl') \<Rightarrow>
                     (case UnmarshalMap attrs of
                        Inl err \<Rightarrow> (Inl (Errorf ''failed to unmarshal updated item: '' err []), tbl')
                      | Inr item \<Rightarrow> (Inr item, tbl')))))"

definition DynamoDBRepository_DeleteItem :: "table repo_DeleteItem" where
  "DynamoDBRepository_DeleteItem key tbl =
     (if key = [] then (Some (Errorf [] ErrInvalidInput '': item ID cannot be empty''), tbl)
      else (case dynamodb_DeleteItem key tbl of
              (Some err, tbl') \<Rightarrow> (Some (HandleDynamoDBError_nonnil err), tbl')
            | (None, tbl') \<Rightarrow> (None, tbl')))"

section \<open>The test double and the observations used in the properties\<close>

text \<open>
  \<open>MockRepository\<close> of handlers_test.go: a repository without a store (the state is
  \<open>unit\<close>) that returns the error it is configured with, if any.
\<close>

definition MockRepository_CreateItem :: "error option \<Rightarrow> unit repo_CreateItem" where
  "MockRepository_CreateItem ShouldReturnError item s =
     (case ShouldReturnError of
        Some err \<Rightarrow> ((Some err, item), s)
      | None \<Rightarrow> ((None, item\<lparr>ID := ''test-id''\<rparr>), s))"

definition MockRepository_GetItem :: "error option \<Rightarrow> unit repo_GetItem" where
  "MockRepository_GetItem ShouldReturnError key s =
     (case ShouldReturnError of
        Some err \<Rightarrow> (Inl err, s)
      | None \<Rightarrow>
          (Inr \<lparr>ID = key, Name = ''Test Item'', Description = ''Test Description'',
                CreatedAt = 0, UpdatedAt = 0, Status = ''active''\<rparr>, s))"

definition MockRepository_ListItems :: "error option \<Rightarrow> unit repo_ListItems" where
  "MockRepository_ListItems ShouldReturnError options s =
     (case ShouldReturnError of
        Some err \<Rightarrow> (Inl err, s)
      | None \<Rightarrow>
          (Inr \<lparr>Items = [\<lparr>ID = ''1'', Name = ''Item 1'', Description = ''Description 1'',
                           CreatedAt = 0, UpdatedAt = 0, Status = ''active''\<rparr>],
                res_LastEvaluatedKey = None, HasMore = False\<rparr>, s))"

definition MockRepository_UpdateItem :: "error option \<Rightarrow> unit repo_UpdateItem" where
  "MockRepository_UpdateItem ShouldReturnError key updates s =
     (case ShouldReturnError of
        Some err \<Rightarrow> (Inl err, s)
      | None \<Rightarrow>
          (Inr \<lparr>ID = key, Name = ''Updated Item'', Description = ''Updated Description'',
                CreatedAt = 0, UpdatedAt = 0, Status = ''active''\<rparr>, s))"

definition MockRepository_DeleteItem :: "error option \<Rightarrow> unit repo_DeleteItem" where
  "MockRepository_DeleteItem ShouldReturnError key s = (ShouldReturnError, s)"

text \<open>The code and the type of the error object of a response, if it has one.\<close>

definition resp_ErrorCode :: "Response \<Rightarrow> string option" where
  "resp_ErrorCode r = map_option ei_Code (Error (resp_Body r))"

definition resp_ErrorType :: "Response \<Rightarrow> string option" where
  "resp_ErrorType r = map_option ei_Type (Error (resp_Body r))"

text \<open>The field \<open>k\<close> of the data payload of a response, when the payload is a map.\<close>

definition resp_DataField :: "Response \<Rightarrow> string \<Rightarrow> json option" where
  "resp_DataField r k =
     (case Data (resp_Body r) of Some (DataMap m) \<Rightarrow> m k | _ \<Rightarrow> None)"

text \<open>
  The envelope rule: a success has a data payload and no error object; a failure has an
  error object with a type, a code and a message, and no data payload.
\<close>

definition envelope_exclusive :: "APIResponse \<Rightarrow> bool" where
  "envelope_exclusive resp =
     (if Success resp then Data resp \<noteq> None \<and> Error resp = None
      else Data resp = None \<and>
           (case Error resp of
              None \<Rightarrow> False
            | Some e \<Rightarrow> ei_Type e \<noteq> [] \<and> ei_Code e \<noteq> [] \<and> ei_Message e \<noteq> []))"

text \<open>
  The number of characters of a string that holds UTF-8 text: its code points, which are
  as many as its bytes that are not continuation bytes (a continuation byte lies between
  0x80 and 0xBF). An ASCII character is one byte; a letter such as U+00E9 is the two bytes
  0xC3 0xA9 and one character. This is the measure of the documentation (``at most 100
  characters''), next to \<open>length\<close>, the measure \<open>len\<close> of the code.
\<close>

definition characterCount :: "string \<Rightarrow> nat" where
  "characterCount s =
     length (filter (\<lambda>b. \<not> (0x80 \<le> (of_char b :: nat) \<and> (of_char b :: nat) < 0xC0)) s)"

section \<open>Properties\<close>

subsection \<open>The substring search finds exactly the substrings\<close>

lemma match_loop_iff:
  "i + length substr \<le> length s \<Longrightarrow>
   match_loop s substr i j = (\<forall>k. j \<le> k \<and> k < length substr \<longrightarrow> s ! (i + k) = substr ! k)"
proof (induction s substr i j rule: match_loop.induct)
  case (1 s substr i j)
  show ?case
  proof (cases "j < length substr")
    case False
    then show ?thesis by (subst match_loop.simps) auto
  next
    case True
    show ?thesis
    proof (cases "s ! (i + j) = substr ! j")
      case False
      with True show ?thesis by (subst match_loop.simps) auto
    next
      case eq: True
      have "match_loop s substr i j = match_loop s substr i (j + 1)"
        using True eq by (subst match_loop.simps) simp
      also have "\<dots> = (\<forall>k. j + 1 \<le> k \<and> k < length substr \<longrightarrow> s ! (i + k) = substr ! k)"
        using "1.IH" True eq "1.prems" by simp
      also have "\<dots> = (\<forall>k. j \<le> k \<and> k < length substr \<longrightarrow> s ! (i + k) = substr ! k)"
      proof (intro iffI allI impI)
        fix k assume h: "\<forall>k. j + 1 \<le> k \<and> k < length substr \<longrightarrow> s ! (i + k) = substr ! k"
          and k: "j \<le> k \<and> k < length substr"
        show "s ! (i + k) = substr ! k"
        proof (cases "k = j")
          case True then show ?thesis using eq by simp
        next
          case False
          with k have "j + 1 \<le> k \<and> k < length substr" by simp
          with h show ?thesis by blast
        qed
      next
        fix k assume h: "\<forall>k. j \<le> k \<and> k < length substr \<longrightarrow> s ! (i + k) = substr ! k"
          and k: "j + 1 \<le> k \<and> k < length substr"
        then have "j \<le> k \<and> k < length substr" by simp
        with h show "s ! (i + k) = substr ! k" by blast
      qed
      finally show ?thesis .
    qed
  qed
qed

lemma match_loop_take_drop:
  assumes "i + length substr \<le> length s"
  shows "match_loop s substr i 0 = (take (length substr) (drop i s) = substr)"
proof -
  have "(take (length substr) (drop i s) = substr) =
        (\<forall>k. k < length substr \<longrightarrow> s ! (i + k) = substr ! k)"
    using assms by (auto simp: list_eq_iff_nth_eq)
  then show ?thesis using match_loop_iff [OF assms, of 0] by simp
qed

lemma findSubstring_loop_nonneg:
  "(findSubstring_loop s substr i \<ge> 0) =
   (\<exists>k\<ge>i. k + length substr \<le> length s \<and> take (length substr) (drop k s) = substr)"
proof (induction s substr i rule: findSubstring_loop.induct)
  case (1 s substr i)
  show ?case
  proof (cases "i + length substr \<le> length s")
    case False
    then show ?thesis by (subst findSubstring_loop.simps) auto
  next
    case True
    show ?thesis
    proof (cases "match_loop s substr i 0")
      case m: True
      then have "take (length substr) (drop i s) = substr"
        using match_loop_take_drop [OF True] by simp
      with True m show ?thesis by (subst findSubstring_loop.simps) auto
    next
      case m: False
      then have ne: "take (length substr) (drop i s) \<noteq> substr"
        using match_loop_take_drop [OF True] by simp
      have "(findSubstring_loop s substr i \<ge> 0) = (findSubstring_loop s substr (i + 1) \<ge> 0)"
        using True m by (subst findSubstring_loop.simps) simp
      also have "\<dots> = (\<exists>k\<ge>i + 1. k + length substr \<le> length s \<and> take (length substr) (drop k s) = substr)"
        using "1.IH" True m by simp
      also have "\<dots> = (\<exists>k\<ge>i. k + length substr \<le> length s \<and> take (length substr) (drop k s) = substr)"
      proof (intro iffI)
        assume "\<exists>k\<ge>i + 1. k + length substr \<le> length s \<and> take (length substr) (drop k s) = substr"
        then obtain k where "k \<ge> i + 1" "k + length substr \<le> length s \<and> take (length substr) (drop k s) = substr"
          by blast
        then have "k \<ge> i \<and> k + length substr \<le> length s \<and> take (length substr) (drop k s) = substr" by simp
        then show "\<exists>k\<ge>i. k + length substr \<le> length s \<and> take (length substr) (drop k s) = substr" by blast
      next
        assume "\<exists>k\<ge>i. k + length substr \<le> length s \<and> take (length substr) (drop k s) = substr"
        then obtain k where k: "k \<ge> i" "k + length substr \<le> length s \<and> take (length substr) (drop k s) = substr"
          by blast
        with ne have "k \<noteq> i" by auto
        with k have "k \<ge> i + 1 \<and> k + length substr \<le> length s \<and> take (length substr) (drop k s) = substr" by simp
        then show "\<exists>k\<ge>i + 1. k + length substr \<le> length s \<and> take (length substr) (drop k s) = substr" by blast
      qed
      finally show ?thesis .
    qed
  qed
qed

lemma sublist_iff_take_drop:
  "sublist xs ys = (\<exists>k. k + length xs \<le> length ys \<and> take (length xs) (drop k ys) = xs)"
proof
  assume "sublist xs ys"
  then obtain ps ss where "ys = ps @ xs @ ss" by (auto simp: sublist_def)
  then have "length ps + length xs \<le> length ys \<and> take (length xs) (drop (length ps) ys) = xs"
    by simp
  then show "\<exists>k. k + length xs \<le> length ys \<and> take (length xs) (drop k ys) = xs" by blast
next
  assume "\<exists>k. k + length xs \<le> length ys \<and> take (length xs) (drop k ys) = xs"
  then obtain k where k: "k + length xs \<le> length ys" "take (length xs) (drop k ys) = xs" by blast
  have "drop k ys = take (length xs) (drop k ys) @ drop (length xs) (drop k ys)"
    by (rule append_take_drop_id [symmetric])
  with k have "drop k ys = xs @ drop (length xs) (drop k ys)" by (simp only:)
  moreover have "ys = take k ys @ drop k ys" by (rule append_take_drop_id [symmetric])
  ultimately have "ys = take k ys @ xs @ drop (length xs) (drop k ys)" by (simp only:)
  then show "sublist xs ys" unfolding sublist_def by blast
qed

lemma contains_sublist: "contains s substr = sublist substr s"
proof (cases "length substr = 0")
  case True
  then show ?thesis by (simp add: contains_def findSubstring_def)
next
  case False
  show ?thesis
  proof (cases "length substr > length s")
    case True
    then have "\<not> sublist substr s"
      by (auto simp: sublist_iff_take_drop)
    with True show ?thesis by (simp add: contains_def)
  next
    case le: False
    then show ?thesis using False
      by (simp add: contains_def findSubstring_def findSubstring_loop_nonneg sublist_iff_take_drop)
  qed
qed

lemma containsAnyKeyword_loop_iff:
  "containsAnyKeyword_loop m ks = (\<exists>k\<in>set ks. sublist (toLower k) m)"
  by (induction ks) (auto simp: contains_sublist)



subsection \<open>Facts about errors and keywords\<close>

lemmas http_status_defs =
  StatusOK_def StatusCreated_def StatusBadRequest_def StatusNotFound_def StatusConflict_def
  StatusTooManyRequests_def StatusInternalServerError_def StatusServiceUnavailable_def

lemma errors_Is_unique:
  "errors_Is e t \<Longrightarrow> errors_Is e t' \<Longrightarrow> t = t'"
  by (induction e) auto

lemma toLower_keywords:
  "toLower ''throughput'' = ''throughput''" "toLower ''capacity'' = ''capacity''"
  "toLower ''throttling'' = ''throttling''" "toLower ''rate'' = ''rate''"
  "toLower ''empty'' = ''empty''" "toLower ''required'' = ''required''"
  "toLower ''too long'' = ''too long''" "toLower ''exceed'' = ''exceed''"
  "toLower ''invalid'' = ''invalid''" "toLower ''format'' = ''format''"
  "toLower ''status'' = ''status''" "toLower ''one of'' = ''one of''"
  by code_simp+

lemma containsThroughputError_iff:
  "containsThroughputError m =
     (sublist ''throughput'' (toLower m) \<or> sublist ''capacity'' (toLower m) \<or>
      sublist ''throttling'' (toLower m) \<or> sublist ''rate'' (toLower m))"
  by (simp add: containsThroughputError_def containsAnyKeyword_def containsAnyKeyword_loop_iff
        toLower_keywords)

lemma containsError_two:
  "containsError m [k1, k2] = (sublist (toLower k1) (toLower m) \<or> sublist (toLower k2) (toLower m))"
  by (simp add: containsError_def containsAnyKeyword_def containsAnyKeyword_loop_iff)

lemma HandleDynamoDBError_nonnil_cases:
  "(\<exists>s. HandleDynamoDBError_nonnil err = Errorf [] ErrItemNotFound s) \<or>
   (\<exists>s. HandleDynamoDBError_nonnil err = Errorf [] ErrItemAlreadyExists s) \<or>
   (\<exists>s. HandleDynamoDBError_nonnil err = Errorf [] ErrInvalidInput s) \<or>
   (\<exists>s. HandleDynamoDBError_nonnil err = Errorf [] ErrOperationFailed s)"
  by (simp add: HandleDynamoDBError_nonnil_def)

subsection \<open>The error translator and the taxonomy\<close>

text \<open>
  Claim C10. For every non-nil error, what \<open>HandleDynamoDBError\<close> returns is not a
  connection failure (\<open>IsConnectionError\<close> is false on it): it wraps one of NotFound,
  AlreadyExists, InvalidInput and OperationFailed. So \<open>MapRepositoryError\<close> never takes
  its 503 \<open>CONNECTION_ERROR\<close> branch on an error that the translator produced.
\<close>

theorem HandleDynamoDBError_never_connection:
  "\<exists>e'. HandleDynamoDBError (Some err) = Some e' \<and>
        \<not> IsConnectionError e' \<and>
        (IsNotFoundError e' \<or> IsConflictError e' \<or> IsValidationError e' \<or> IsOperationError e') \<and>
        Code (MapRepositoryError_nonnil e') \<noteq> CodeConnectionError \<and>
        StatusCode (MapRepositoryError_nonnil e') \<noteq> StatusServiceUnavailable"
proof -
  let ?e = "HandleDynamoDBError_nonnil err"
  have h: "HandleDynamoDBError (Some err) = Some ?e"
    by (simp add: HandleDynamoDBError_def)
  have nc: "\<not> IsConnectionError ?e"
    using HandleDynamoDBError_nonnil_cases [of err]
    by (auto simp: IsConnectionError_def)
  have cls: "IsNotFoundError ?e \<or> IsConflictError ?e \<or> IsValidationError ?e \<or> IsOperationError ?e"
    using HandleDynamoDBError_nonnil_cases [of err]
    by (auto simp: IsNotFoundError_def IsConflictError_def IsValidationError_def IsOperationError_def)
  have code: "Code (MapRepositoryError_nonnil ?e) \<noteq> CodeConnectionError"
    using nc by (simp add: MapRepositoryError_nonnil_def)
  have st: "StatusCode (MapRepositoryError_nonnil ?e) \<noteq> StatusServiceUnavailable"
    using nc by (simp add: MapRepositoryError_nonnil_def http_status_defs)
  from h nc cls code st show ?thesis by blast
qed

text \<open>
  Claim C3, as stated, fails. The claim sends an operation failure to 429 only when its
  message has one of the keywords throughput, capacity, throttling, and every other
  operation failure to 500 \<open>DATABASE_ERROR\<close>. The list in \<open>containsThroughputError\<close> has
  a fourth keyword, \<open>rate\<close>: an operation failure whose message has the word
  \<open>generate\<close>, and none of the three keywords, is answered 429 \<open>THROUGHPUT_EXCEEDED\<close>.
\<close>

theorem MapRepositoryError_rate_counterexample:
  "IsOperationError (Errorf [] ErrOperationFailed '': failed to generate request signature'') \<and>
   \<not> sublist ''throughput'' (toLower (Error_text (Errorf [] ErrOperationFailed '': failed to generate request signature''))) \<and>
   \<not> sublist ''capacity'' (toLower (Error_text (Errorf [] ErrOperationFailed '': failed to generate request signature''))) \<and>
   \<not> sublist ''throttling'' (toLower (Error_text (Errorf [] ErrOperationFailed '': failed to generate request signature''))) \<and>
   Code (MapRepositoryError_nonnil (Errorf [] ErrOperationFailed '': failed to generate request signature''))
     = CodeThroughputExceeded \<and>
   StatusCode (MapRepositoryError_nonnil (Errorf [] ErrOperationFailed '': failed to generate request signature''))
     = 429"
proof -
  let ?e = "Errorf [] ErrOperationFailed '': failed to generate request signature''"
  let ?m = "toLower (Error_text ?e)"
  have m: "?m = ''database operation failed: failed to generate request signature''"
    by code_simp
  have a: "\<not> contains ?m ''throughput''" unfolding m by code_simp
  have b: "\<not> contains ?m ''capacity''" unfolding m by code_simp
  have c: "\<not> contains ?m ''throttling''" unfolding m by code_simp
  have d: "contains ?m ''rate''" unfolding m by code_simp
  have op: "IsOperationError ?e" by (simp add: IsOperationError_def)
  have t: "containsThroughputError (Error_text ?e)"
    using d by (simp add: containsThroughputError_iff contains_sublist)
  have r: "MapRepositoryError_nonnil ?e =
        \<lparr>Type = ErrorTypeDatabase, Code = CodeThroughputExceeded,
         Message = ''Database throughput exceeded'',
         Details = ''Please retry your request after a brief delay'',
         StatusCode = StatusTooManyRequests, Cause = Some ?e\<rparr>"
    unfolding MapRepositoryError_nonnil_def using t
    by (simp add: IsNotFoundError_def IsConflictError_def IsValidationError_def
          IsConnectionError_def IsOperationError_def)
  show ?thesis
    using a b c op by (simp add: r contains_sublist StatusTooManyRequests_def)
qed

text \<open>
  Claim C3, amended. \<open>MapRepositoryError\<close> gives a not-found failure 404
  \<open>NOT_FOUND\<close>, a conflict 409, a validation failure 400, a connection failure 503; an
  operation failure 429 \<open>THROUGHPUT_EXCEEDED\<close> when its message, in lower case, has one
  of the keywords throughput, capacity, throttling or rate, and 500 \<open>DATABASE_ERROR\<close>
  otherwise; and every error of none of these classes 500 with type system and code
  \<open>INTERNAL_ERROR\<close>.
\<close>

theorem MapRepositoryError_taxonomy:
  "(IsNotFoundError err \<longrightarrow>
      Type (MapRepositoryError_nonnil err) = ErrorTypeNotFound \<and>
      Code (MapRepositoryError_nonnil err) = CodeNotFound \<and>
      StatusCode (MapRepositoryError_nonnil err) = 404) \<and>
   (IsConflictError err \<longrightarrow>
      Type (MapRepositoryError_nonnil err) = ErrorTypeConflict \<and>
      Code (MapRepositoryError_nonnil err) = CodeAlreadyExists \<and>
      StatusCode (MapRepositoryError_nonnil err) = 409) \<and>
   (IsValidationError err \<longrightarrow>
      Type (MapRepositoryError_nonnil err) = ErrorTypeValidation \<and>
      Code (MapRepositoryError_nonnil err) = CodeInvalidRequest \<and>
      StatusCode (MapRepositoryError_nonnil err) = 400) \<and>
   (IsConnectionError err \<longrightarrow>
      Type (MapRepositoryError_nonnil err) = ErrorTypeDatabase \<and>
      Code (MapRepositoryError_nonnil err) = CodeConnectionError \<and>
      StatusCode (MapRepositoryError_nonnil err) = 503) \<and>
   (IsOperationError err \<and>
    (sublist ''throughput'' (toLower (Error_text err)) \<or>
     sublist ''capacity'' (toLower (Error_text err)) \<or>
     sublist ''throttling'' (toLower (Error_text err)) \<or>
     sublist ''rate'' (toLower (Error_text err))) \<longrightarrow>
      Type (MapRepositoryError_nonnil err) = ErrorTypeDatabase \<and>
      Code (MapRepositoryError_nonnil err) = CodeThroughputExceeded \<and>
      ErrorCode_string (Code (MapRepositoryError_nonnil err)) = ''THROUGHPUT_EXCEEDED'' \<and>
      StatusCode (MapRepositoryError_nonnil err) = 429) \<and>
   (IsOperationError err \<and>
    \<not> (sublist ''throughput'' (toLower (Error_text err)) \<or>
       sublist ''capacity'' (toLower (Error_text err)) \<or>
       sublist ''throttling'' (toLower (Error_text err)) \<or>
       sublist ''rate'' (toLower (Error_text err))) \<longrightarrow>
      Type (MapRepositoryError_nonnil err) = ErrorTypeDatabase \<and>
      Code (MapRepositoryError_nonnil err) = CodeDatabaseError \<and>
      ErrorCode_string (Code (MapRepositoryError_nonnil err)) = ''DATABASE_ERROR'' \<and>
      StatusCode (MapRepositoryError_nonnil err) = 500) \<and>
   (\<not> IsNotFoundError err \<and> \<not> IsConflictError err \<and> \<not> IsValidationError err \<and>
    \<not> IsConnectionError err \<and> \<not> IsOperationError err \<longrightarrow>
      Type (MapRepositoryError_nonnil err) = ErrorTypeSystem \<and>
      ErrorType_string (Type (MapRepositoryError_nonnil err)) = ''system'' \<and>
      Code (MapRepositoryError_nonnil err) = CodeInternalError \<and>
      ErrorCode_string (Code (MapRepositoryError_nonnil err)) = ''INTERNAL_ERROR'' \<and>
      StatusCode (MapRepositoryError_nonnil err) = 500)"
proof -
  have excl: "\<And>t t'. errors_Is err t \<Longrightarrow> t \<noteq> t' \<Longrightarrow> \<not> errors_Is err t'"
    using errors_Is_unique by blast
  have nf: "IsNotFoundError err \<Longrightarrow> ?thesis"
    by (simp add: MapRepositoryError_nonnil_def http_status_defs)
       (auto simp: IsNotFoundError_def IsConflictError_def IsValidationError_def
          IsConnectionError_def IsOperationError_def dest: errors_Is_unique)
  have cf: "IsConflictError err \<Longrightarrow> ?thesis"
    by (simp add: MapRepositoryError_nonnil_def http_status_defs)
       (auto simp: IsNotFoundError_def IsConflictError_def IsValidationError_def
          IsConnectionError_def IsOperationError_def dest: errors_Is_unique)
  have va: "IsValidationError err \<Longrightarrow> ?thesis"
    by (simp add: MapRepositoryError_nonnil_def http_status_defs)
       (auto simp: IsNotFoundError_def IsConflictError_def IsValidationError_def
          IsConnectionError_def IsOperationError_def dest: errors_Is_unique)
  have cn: "IsConnectionError err \<Longrightarrow> ?thesis"
    by (simp add: MapRepositoryError_nonnil_def http_status_defs)
       (auto simp: IsNotFoundError_def IsConflictError_def IsValidationError_def
          IsConnectionError_def IsOperationError_def dest: errors_Is_unique)
  have op: "IsOperationError err \<Longrightarrow> ?thesis"
    by (simp add: MapRepositoryError_nonnil_def http_status_defs containsThroughputError_iff)
       (auto simp: IsNotFoundError_def IsConflictError_def IsValidationError_def
          IsConnectionError_def IsOperationError_def dest: errors_Is_unique)
  have none: "\<not> IsNotFoundError err \<Longrightarrow> \<not> IsConflictError err \<Longrightarrow> \<not> IsValidationError err \<Longrightarrow>
    \<not> IsConnectionError err \<Longrightarrow> \<not> IsOperationError err \<Longrightarrow> ?thesis"
    by (simp add: MapRepositoryError_nonnil_def http_status_defs)
  from nf cf va cn op none show ?thesis by blast
qed

text \<open>The amended claim C3 at one error of each class.\<close>

theorem MapRepositoryError_taxonomy_witness:
  "IsNotFoundError ErrItemNotFound \<and>
   StatusCode (MapRepositoryError_nonnil ErrItemNotFound) = 404 \<and>
   IsConflictError ErrItemAlreadyExists \<and>
   StatusCode (MapRepositoryError_nonnil ErrItemAlreadyExists) = 409 \<and>
   IsValidationError ErrInvalidInput \<and>
   StatusCode (MapRepositoryError_nonnil ErrInvalidInput) = 400 \<and>
   IsConnectionError ErrConnectionFailed \<and>
   StatusCode (MapRepositoryError_nonnil ErrConnectionFailed) = 503 \<and>
   IsOperationError (Errorf [] ErrOperationFailed '': throughput exceeded'') \<and>
   sublist ''throughput'' (toLower (Error_text (Errorf [] ErrOperationFailed '': throughput exceeded''))) \<and>
   StatusCode (MapRepositoryError_nonnil (Errorf [] ErrOperationFailed '': throughput exceeded'')) = 429 \<and>
   IsOperationError ErrOperationFailed \<and>
   \<not> sublist ''throughput'' (toLower (Error_text ErrOperationFailed)) \<and>
   \<not> sublist ''capacity'' (toLower (Error_text ErrOperationFailed)) \<and>
   \<not> sublist ''throttling'' (toLower (Error_text ErrOperationFailed)) \<and>
   \<not> sublist ''rate'' (toLower (Error_text ErrOperationFailed)) \<and>
   Code (MapRepositoryError_nonnil ErrOperationFailed) = CodeDatabaseError \<and>
   StatusCode (MapRepositoryError_nonnil ErrOperationFailed) = 500 \<and>
   \<not> IsNotFoundError (OtherError ''unknown error'') \<and>
   \<not> IsConflictError (OtherError ''unknown error'') \<and>
   \<not> IsValidationError (OtherError ''unknown error'') \<and>
   \<not> IsConnectionError (OtherError ''unknown error'') \<and>
   \<not> IsOperationError (OtherError ''unknown error'') \<and>
   Code (MapRepositoryError_nonnil (OtherError ''unknown error'')) = CodeInternalError \<and>
   StatusCode (MapRepositoryError_nonnil (OtherError ''unknown error'')) = 500"
proof -
  have cls:
    "IsNotFoundError ErrItemNotFound" "IsConflictError ErrItemAlreadyExists"
    "IsValidationError ErrInvalidInput" "IsConnectionError ErrConnectionFailed"
    "IsOperationError (Errorf [] ErrOperationFailed '': throughput exceeded'')"
    "IsOperationError ErrOperationFailed"
    by (simp_all add: IsNotFoundError_def IsConflictError_def IsValidationError_def
          IsConnectionError_def IsOperationError_def)
  have unk:
    "\<not> IsNotFoundError (OtherError ''unknown error'')"
    "\<not> IsConflictError (OtherError ''unknown error'')"
    "\<not> IsValidationError (OtherError ''unknown error'')"
    "\<not> IsConnectionError (OtherError ''unknown error'')"
    "\<not> IsOperationError (OtherError ''unknown error'')"
    by (simp_all add: IsNotFoundError_def IsConflictError_def IsValidationError_def
          IsConnectionError_def IsOperationError_def)
  have t: "sublist ''throughput'' (toLower (Error_text (Errorf [] ErrOperationFailed '': throughput exceeded'')))"
    unfolding contains_sublist [symmetric] by code_simp
  have o1: "\<not> sublist ''throughput'' (toLower (Error_text ErrOperationFailed))"
    unfolding contains_sublist [symmetric] by code_simp
  have o2: "\<not> sublist ''capacity'' (toLower (Error_text ErrOperationFailed))"
    unfolding contains_sublist [symmetric] by code_simp
  have o3: "\<not> sublist ''throttling'' (toLower (Error_text ErrOperationFailed))"
    unfolding contains_sublist [symmetric] by code_simp
  have o4: "\<not> sublist ''rate'' (toLower (Error_text ErrOperationFailed))"
    unfolding contains_sublist [symmetric] by code_simp
  have a: "StatusCode (MapRepositoryError_nonnil ErrItemNotFound) = 404"
    using MapRepositoryError_taxonomy [of ErrItemNotFound] cls(1) by blast
  have b: "StatusCode (MapRepositoryError_nonnil ErrItemAlreadyExists) = 409"
    using MapRepositoryError_taxonomy [of ErrItemAlreadyExists] cls(2) by blast
  have c: "StatusCode (MapRepositoryError_nonnil ErrInvalidInput) = 400"
    using MapRepositoryError_taxonomy [of ErrInvalidInput] cls(3) by blast
  have d: "StatusCode (MapRepositoryError_nonnil ErrConnectionFailed) = 503"
    using MapRepositoryError_taxonomy [of ErrConnectionFailed] cls(4) by blast
  have e: "StatusCode (MapRepositoryError_nonnil (Errorf [] ErrOperationFailed '': throughput exceeded'')) = 429"
    using MapRepositoryError_taxonomy [of "Errorf [] ErrOperationFailed '': throughput exceeded''"] cls(5) t
    by blast
  have f: "Code (MapRepositoryError_nonnil ErrOperationFailed) = CodeDatabaseError \<and>
           StatusCode (MapRepositoryError_nonnil ErrOperationFailed) = 500"
    using MapRepositoryError_taxonomy [of ErrOperationFailed] cls(6) o1 o2 o3 o4 by blast
  have g: "Code (MapRepositoryError_nonnil (OtherError ''unknown error'')) = CodeInternalError \<and>
           StatusCode (MapRepositoryError_nonnil (OtherError ''unknown error'')) = 500"
    using MapRepositoryError_taxonomy [of "OtherError ''unknown error''"] unk by blast
  show ?thesis
    using cls unk t o1 o2 o3 o4 a b c d e f g by simp
qed

subsection \<open>Validation failures\<close>

lemma Validate_update_invalid_status:
  "UpdateItemRequest_Validate \<lparr>ur_Name = [], ur_Description = [], ur_Status = ''invalid_status''\<rparr>
     = Some ErrInvalidStatus"
  by (simp add: UpdateItemRequest_Validate_def isValidStatus_def)

text \<open>
  Claim C5. \<open>MapValidationError\<close> answers every validation failure with status 400 and
  type validation, and chooses the code by the first group of keywords found in the
  message (compared in lower case): empty or required give \<open>MISSING_FIELD\<close>; else too
  long or exceed give \<open>VALUE_TOO_LONG\<close>; else invalid or format give \<open>INVALID_FORMAT\<close>;
  else status or one of give \<open>INVALID_VALUE\<close>; else \<open>INVALID_REQUEST\<close>. An update whose
  body is only the status \<open>invalid_status\<close> is answered, whatever the repository, with 400,
  code \<open>INVALID_VALUE\<close> and type validation, and the store is not touched.
\<close>

theorem MapValidationError_classification:
  "Type (MapValidationError_nonnil err) = ErrorTypeValidation \<and>
   StatusCode (MapValidationError_nonnil err) = 400 \<and>
   (sublist ''empty'' (toLower (Error_text err)) \<or> sublist ''required'' (toLower (Error_text err))
      \<longrightarrow> Code (MapValidationError_nonnil err) = CodeMissingField) \<and>
   (\<not> (sublist ''empty'' (toLower (Error_text err)) \<or> sublist ''required'' (toLower (Error_text err))) \<and>
    (sublist ''too long'' (toLower (Error_text err)) \<or> sublist ''exceed'' (toLower (Error_text err)))
      \<longrightarrow> Code (MapValidationError_nonnil err) = CodeValueTooLong) \<and>
   (\<not> (sublist ''empty'' (toLower (Error_text err)) \<or> sublist ''required'' (toLower (Error_text err))) \<and>
    \<not> (sublist ''too long'' (toLower (Error_text err)) \<or> sublist ''exceed'' (toLower (Error_text err))) \<and>
    (sublist ''invalid'' (toLower (Error_text err)) \<or> sublist ''format'' (toLower (Error_text err)))
      \<longrightarrow> Code (MapValidationError_nonnil err) = CodeInvalidFormat) \<and>
   (\<not> (sublist ''empty'' (toLower (Error_text err)) \<or> sublist ''required'' (toLower (Error_text err))) \<and>
    \<not> (sublist ''too long'' (toLower (Error_text err)) \<or> sublist ''exceed'' (toLower (Error_text err))) \<and>
    \<not> (sublist ''invalid'' (toLower (Error_text err)) \<or> sublist ''format'' (toLower (Error_text err))) \<and>
    (sublist ''status'' (toLower (Error_text err)) \<or> sublist ''one of'' (toLower (Error_text err)))
      \<longrightarrow> Code (MapValidationError_nonnil err) = CodeInvalidValue) \<and>
   (\<not> (sublist ''empty'' (toLower (Error_text err)) \<or> sublist ''required'' (toLower (Error_text err))) \<and>
    \<not> (sublist ''too long'' (toLower (Error_text err)) \<or> sublist ''exceed'' (toLower (Error_text err))) \<and>
    \<not> (sublist ''invalid'' (toLower (Error_text err)) \<or> sublist ''format'' (toLower (Error_text err))) \<and>
    \<not> (sublist ''status'' (toLower (Error_text err)) \<or> sublist ''one of'' (toLower (Error_text err)))
      \<longrightarrow> Code (MapValidationError_nonnil err) = CodeInvalidRequest) \<and>
   (itemID \<noteq> [] \<longrightarrow>
      ItemHandler_UpdateItem repo_UpdateItem itemID
        (Inr \<lparr>ur_Name = [], ur_Description = [], ur_Status = ''invalid_status''\<rparr>) s
        = (WriteErrorResponse (MapValidationError_nonnil ErrInvalidStatus), s) \<and>
      resp_StatusCode (WriteErrorResponse (MapValidationError_nonnil ErrInvalidStatus)) = 400 \<and>
      resp_ErrorCode (WriteErrorResponse (MapValidationError_nonnil ErrInvalidStatus)) = Some ''INVALID_VALUE'' \<and>
      resp_ErrorType (WriteErrorResponse (MapValidationError_nonnil ErrInvalidStatus)) = Some ''validation'')"
proof -
  define h1 where "h1 = (sublist ''empty'' (toLower (Error_text err)) \<or> sublist ''required'' (toLower (Error_text err)))"
  define h2 where "h2 = (sublist ''too long'' (toLower (Error_text err)) \<or> sublist ''exceed'' (toLower (Error_text err)))"
  define h3 where "h3 = (sublist ''invalid'' (toLower (Error_text err)) \<or> sublist ''format'' (toLower (Error_text err)))"
  define h4 where "h4 = (sublist ''status'' (toLower (Error_text err)) \<or> sublist ''one of'' (toLower (Error_text err)))"
  have codes: "Code (MapValidationError_nonnil err) =
     (if h1 then CodeMissingField else if h2 then CodeValueTooLong
      else if h3 then CodeInvalidFormat else if h4 then CodeInvalidValue else CodeInvalidRequest)"
    unfolding h1_def h2_def h3_def h4_def
    by (simp add: MapValidationError_nonnil_def Let_def containsError_two toLower_keywords)
  have c1: "h1 \<longrightarrow> Code (MapValidationError_nonnil err) = CodeMissingField"
    and c2: "\<not> h1 \<and> h2 \<longrightarrow> Code (MapValidationError_nonnil err) = CodeValueTooLong"
    and c3: "\<not> h1 \<and> \<not> h2 \<and> h3 \<longrightarrow> Code (MapValidationError_nonnil err) = CodeInvalidFormat"
    and c4: "\<not> h1 \<and> \<not> h2 \<and> \<not> h3 \<and> h4 \<longrightarrow> Code (MapValidationError_nonnil err) = CodeInvalidValue"
    and c5: "\<not> h1 \<and> \<not> h2 \<and> \<not> h3 \<and> \<not> h4 \<longrightarrow> Code (MapValidationError_nonnil err) = CodeInvalidRequest"
    by (simp_all add: codes)
  have ty: "Type (MapValidationError_nonnil err) = ErrorTypeValidation"
    and st: "StatusCode (MapValidationError_nonnil err) = 400"
    by (simp_all add: MapValidationError_nonnil_def Let_def StatusBadRequest_def)
  have m: "toLower ''status must be one of: active, inactive, pending'' =
      ''status must be one of: active, inactive, pending''"
    by code_simp
  have n1: "\<not> contains ''status must be one of: active, inactive, pending'' ''empty''" by code_simp
  have n2: "\<not> contains ''status must be one of: active, inactive, pending'' ''required''" by code_simp
  have n3: "\<not> contains ''status must be one of: active, inactive, pending'' ''too long''" by code_simp
  have n4: "\<not> contains ''status must be one of: active, inactive, pending'' ''exceed''" by code_simp
  have n5: "\<not> contains ''status must be one of: active, inactive, pending'' ''invalid''" by code_simp
  have n6: "\<not> contains ''status must be one of: active, inactive, pending'' ''format''" by code_simp
  have y: "contains ''status must be one of: active, inactive, pending'' ''status''" by code_simp
  have inv: "MapValidationError_nonnil ErrInvalidStatus =
      \<lparr>Type = ErrorTypeValidation, Code = CodeInvalidValue,
       Message = ''status must be one of: active, inactive, pending'', Details = [],
       StatusCode = StatusBadRequest, Cause = Some ErrInvalidStatus\<rparr>"
    using n1 n2 n3 n4 n5 n6 y
    by (simp add: MapValidationError_nonnil_def Let_def containsError_def containsAnyKeyword_def
          m toLower_keywords)
  have upd: "itemID \<noteq> [] \<Longrightarrow>
      ItemHandler_UpdateItem repo_UpdateItem itemID
        (Inr \<lparr>ur_Name = [], ur_Description = [], ur_Status = ''invalid_status''\<rparr>) s
        = (WriteErrorResponse (MapValidationError_nonnil ErrInvalidStatus), s)"
    by (simp add: ItemHandler_UpdateItem_def Validate_update_invalid_status
          WriteValidationErrorResponse_def)
  have obs: "resp_StatusCode (WriteErrorResponse (MapValidationError_nonnil ErrInvalidStatus)) = 400"
    "resp_ErrorCode (WriteErrorResponse (MapValidationError_nonnil ErrInvalidStatus)) = Some ''INVALID_VALUE''"
    "resp_ErrorType (WriteErrorResponse (MapValidationError_nonnil ErrInvalidStatus)) = Some ''validation''"
    by (simp_all add: inv WriteErrorResponse_def writeJSONResponse_def resp_ErrorCode_def
          resp_ErrorType_def StatusBadRequest_def)
  have c6: "itemID \<noteq> [] \<longrightarrow>
      ItemHandler_UpdateItem repo_UpdateItem itemID
        (Inr \<lparr>ur_Name = [], ur_Description = [], ur_Status = ''invalid_status''\<rparr>) s
        = (WriteErrorResponse (MapValidationError_nonnil ErrInvalidStatus), s) \<and>
      resp_StatusCode (WriteErrorResponse (MapValidationError_nonnil ErrInvalidStatus)) = 400 \<and>
      resp_ErrorCode (WriteErrorResponse (MapValidationError_nonnil ErrInvalidStatus)) = Some ''INVALID_VALUE'' \<and>
      resp_ErrorType (WriteErrorResponse (MapValidationError_nonnil ErrInvalidStatus)) = Some ''validation''"
    using upd obs by blast
  show ?thesis
    by (intro conjI)
       (rule ty st c1 [unfolded h1_def] c2 [unfolded h1_def h2_def] c3 [unfolded h1_def h2_def h3_def]
          c4 [unfolded h1_def h2_def h3_def h4_def] c5 [unfolded h1_def h2_def h3_def h4_def] c6)+
qed

text \<open>
  Claim C5 at one message of each group, and at the update of \<open>test-id\<close> through the
  test double.
\<close>

theorem MapValidationError_classification_witness:
  "sublist ''empty'' (toLower (Error_text ErrEmptyName)) \<and>
   Code (MapValidationError_nonnil ErrEmptyName) = CodeMissingField \<and>
   sublist ''exceed'' (toLower (Error_text ErrNameTooLong)) \<and>
   Code (MapValidationError_nonnil ErrNameTooLong) = CodeValueTooLong \<and>
   sublist ''format'' (toLower (Error_text (OtherError ''bad date format''))) \<and>
   Code (MapValidationError_nonnil (OtherError ''bad date format'')) = CodeInvalidFormat \<and>
   sublist ''status'' (toLower (Error_text ErrInvalidStatus)) \<and>
   Code (MapValidationError_nonnil ErrInvalidStatus) = CodeInvalidValue \<and>
   Code (MapValidationError_nonnil (OtherError ''some validation error'')) = CodeInvalidRequest \<and>
   ''test-id'' \<noteq> [] \<and>
   resp_StatusCode (fst (ItemHandler_UpdateItem (MockRepository_UpdateItem None) ''test-id''
        (Inr \<lparr>ur_Name = [], ur_Description = [], ur_Status = ''invalid_status''\<rparr>) ())) = 400 \<and>
   resp_ErrorCode (fst (ItemHandler_UpdateItem (MockRepository_UpdateItem None) ''test-id''
        (Inr \<lparr>ur_Name = [], ur_Description = [], ur_Status = ''invalid_status''\<rparr>) ()))
     = Some ''INVALID_VALUE''"
proof -
  have e: "sublist ''empty'' (toLower (Error_text ErrEmptyName))"
    unfolding contains_sublist [symmetric] by code_simp
  have l: "\<not> sublist ''empty'' (toLower (Error_text ErrNameTooLong))"
      "\<not> sublist ''required'' (toLower (Error_text ErrNameTooLong))"
      "sublist ''exceed'' (toLower (Error_text ErrNameTooLong))"
    unfolding contains_sublist [symmetric] by code_simp+
  have f: "\<not> sublist ''empty'' (toLower (Error_text (OtherError ''bad date format'')))"
      "\<not> sublist ''required'' (toLower (Error_text (OtherError ''bad date format'')))"
      "\<not> sublist ''too long'' (toLower (Error_text (OtherError ''bad date format'')))"
      "\<not> sublist ''exceed'' (toLower (Error_text (OtherError ''bad date format'')))"
      "sublist ''format'' (toLower (Error_text (OtherError ''bad date format'')))"
    unfolding contains_sublist [symmetric] by code_simp+
  have v: "\<not> sublist ''empty'' (toLower (Error_text ErrInvalidStatus))"
      "\<not> sublist ''required'' (toLower (Error_text ErrInvalidStatus))"
      "\<not> sublist ''too long'' (toLower (Error_text ErrInvalidStatus))"
      "\<not> sublist ''exceed'' (toLower (Error_text ErrInvalidStatus))"
      "\<not> sublist ''invalid'' (toLower (Error_text ErrInvalidStatus))"
      "\<not> sublist ''format'' (toLower (Error_text ErrInvalidStatus))"
      "sublist ''status'' (toLower (Error_text ErrInvalidStatus))"
    unfolding contains_sublist [symmetric] by code_simp+
  have g: "\<not> sublist ''empty'' (toLower (Error_text (OtherError ''some validation error'')))"
      "\<not> sublist ''required'' (toLower (Error_text (OtherError ''some validation error'')))"
      "\<not> sublist ''too long'' (toLower (Error_text (OtherError ''some validation error'')))"
      "\<not> sublist ''exceed'' (toLower (Error_text (OtherError ''some validation error'')))"
      "\<not> sublist ''invalid'' (toLower (Error_text (OtherError ''some validation error'')))"
      "\<not> sublist ''format'' (toLower (Error_text (OtherError ''some validation error'')))"
      "\<not> sublist ''status'' (toLower (Error_text (OtherError ''some validation error'')))"
      "\<not> sublist ''one of'' (toLower (Error_text (OtherError ''some validation error'')))"
    unfolding contains_sublist [symmetric] by code_simp+
  have id: "''test-id'' \<noteq> []" by simp
  have c1: "Code (MapValidationError_nonnil ErrEmptyName) = CodeMissingField"
    using MapValidationError_classification
      [where err = ErrEmptyName and itemID = "''test-id''"
         and repo_UpdateItem = "MockRepository_UpdateItem None" and s = "()",
       THEN conjunct2, THEN conjunct2, THEN conjunct1] e
    by blast
  have c2: "Code (MapValidationError_nonnil ErrNameTooLong) = CodeValueTooLong"
    using MapValidationError_classification
      [where err = ErrNameTooLong and itemID = "''test-id''"
         and repo_UpdateItem = "MockRepository_UpdateItem None" and s = "()",
       THEN conjunct2, THEN conjunct2, THEN conjunct2, THEN conjunct1] l
    by blast
  have c3: "Code (MapValidationError_nonnil (OtherError ''bad date format'')) = CodeInvalidFormat"
    using MapValidationError_classification
      [where err = "OtherError ''bad date format''" and itemID = "''test-id''"
         and repo_UpdateItem = "MockRepository_UpdateItem None" and s = "()",
       THEN conjunct2, THEN conjunct2, THEN conjunct2, THEN conjunct2, THEN conjunct1] f
    by blast
  have c4: "Code (MapValidationError_nonnil ErrInvalidStatus) = CodeInvalidValue"
    using MapValidationError_classification
      [where err = ErrInvalidStatus and itemID = "''test-id''"
         and repo_UpdateItem = "MockRepository_UpdateItem None" and s = "()",
       THEN conjunct2, THEN conjunct2, THEN conjunct2, THEN conjunct2, THEN conjunct2, THEN conjunct1] v
    by blast
  have c5: "Code (MapValidationError_nonnil (OtherError ''some validation error'')) = CodeInvalidRequest"
    using MapValidationError_classification
      [where err = "OtherError ''some validation error''" and itemID = "''test-id''"
         and repo_UpdateItem = "MockRepository_UpdateItem None" and s = "()",
       THEN conjunct2, THEN conjunct2, THEN conjunct2, THEN conjunct2, THEN conjunct2, THEN conjunct2, THEN conjunct1] g
    by blast
  have c6: "resp_StatusCode (fst (ItemHandler_UpdateItem (MockRepository_UpdateItem None) ''test-id''
        (Inr \<lparr>ur_Name = [], ur_Description = [], ur_Status = ''invalid_status''\<rparr>) ())) = 400 \<and>
     resp_ErrorCode (fst (ItemHandler_UpdateItem (MockRepository_UpdateItem None) ''test-id''
        (Inr \<lparr>ur_Name = [], ur_Description = [], ur_Status = ''invalid_status''\<rparr>) ()))
     = Some ''INVALID_VALUE''"
    using MapValidationError_classification
      [where err = ErrEmptyName and itemID = "''test-id''"
         and repo_UpdateItem = "MockRepository_UpdateItem None" and s = "()",
       THEN conjunct2, THEN conjunct2, THEN conjunct2, THEN conjunct2, THEN conjunct2, THEN conjunct2, THEN conjunct2, THEN mp, OF id]
    by (simp only: fst_conv)
  show ?thesis
    by (intro conjI) (rule e l f v c1 c2 c3 c4 c5 id c6 [THEN conjunct1] c6 [THEN conjunct2])+
qed

lemma TrimSpace_Nil: "TrimSpace [] = []"
  by (simp add: TrimSpace_def trimRight.simps)

text \<open>
  What \<open>CreateItemRequest.Validate\<close> does, in the measure of the code: it accepts a
  request exactly when the name is not empty after \<open>strings.TrimSpace\<close> and at most 100
  bytes long, and the description is not empty after trimming and at most 500 bytes long.
  The lengths are those of the strings as given, white space included: trimming is used
  for the emptiness test only.
\<close>

lemma CreateItemRequest_Validate_bytes:
  "(CreateItemRequest_Validate r = None \<longleftrightarrow>
      TrimSpace (cr_Name r) \<noteq> [] \<and> length (cr_Name r) \<le> 100 \<and>
      TrimSpace (cr_Description r) \<noteq> [] \<and> length (cr_Description r) \<le> 500) \<and>
   (TrimSpace (cr_Name r) \<noteq> [] \<and> length (cr_Name r) > 100
      \<longrightarrow> CreateItemRequest_Validate r = Some ErrNameTooLong) \<and>
   (TrimSpace (cr_Name r) \<noteq> [] \<and> length (cr_Name r) \<le> 100 \<and>
    TrimSpace (cr_Description r) \<noteq> [] \<and> length (cr_Description r) > 500
      \<longrightarrow> CreateItemRequest_Validate r = Some ErrDescriptionTooLong)"
  by (simp add: CreateItemRequest_Validate_def)

lemma two_byte_name_facts:
  "characterCount (concat (replicate 51 [CHR 0xC3, CHR 0xA9])) = 51"
  "length (concat (replicate 51 [CHR 0xC3, CHR 0xA9])) = 102"
  "TrimSpace (concat (replicate 51 [CHR 0xC3, CHR 0xA9])) \<noteq> []"
  by code_simp+

text \<open>
  Claim C7 on the code. The claim, like the message of \<open>ErrNameTooLong\<close> and the README,
  measures the limits in characters. \<open>Validate\<close> compares \<open>len\<close>, the number of bytes. A
  name of 51 letters U+00E9 is not blank and has 51 characters, so the claim accepts it
  (with the description \<open>d\<close>); it is 102 bytes long, and \<open>Validate\<close> refuses it with the
  error whose text is ``name cannot exceed 100 characters''.
\<close>

theorem Validate_counts_bytes_not_characters:
  "characterCount (concat (replicate 51 [CHR 0xC3, CHR 0xA9])) = 51 \<and>
   length (concat (replicate 51 [CHR 0xC3, CHR 0xA9])) = 102 \<and>
   TrimSpace (concat (replicate 51 [CHR 0xC3, CHR 0xA9])) \<noteq> [] \<and>
   characterCount ''d'' = 1 \<and> TrimSpace ''d'' \<noteq> [] \<and>
   CreateItemRequest_Validate
     \<lparr>cr_Name = concat (replicate 51 [CHR 0xC3, CHR 0xA9]), cr_Description = ''d''\<rparr>
     = Some ErrNameTooLong \<and>
   Error_text ErrNameTooLong = ''name cannot exceed 100 characters''"
proof -
  have d: "characterCount ''d'' = 1" "TrimSpace ''d'' \<noteq> []" by code_simp+
  have v: "CreateItemRequest_Validate
     \<lparr>cr_Name = concat (replicate 51 [CHR 0xC3, CHR 0xA9]), cr_Description = ''d''\<rparr>
     = Some ErrNameTooLong"
    using two_byte_name_facts(2,3) by (simp add: CreateItemRequest_Validate_def)
  show ?thesis
    using two_byte_name_facts d v by simp
qed

subsection \<open>The handlers\<close>

lemma ListItems_options_limit:
  "Values_Get query ''limit'' = l \<Longrightarrow> l \<noteq> [] \<Longrightarrow>
   ListItems_options query =
     (case Atoi l of
        None \<Rightarrow> Inl (NewValidationError CodeInvalidFormat ''Invalid limit parameter''
                       [''Limit must be a valid integer''])
      | Some limit \<Rightarrow>
          if limit \<le> 0 \<or> limit > 100 then
            Inl (NewValidationError CodeInvalidValue ''Invalid limit value''
                   [''Limit must be between 1 and 100''])
          else Inr \<lparr>Limit = limit, LastEvaluatedKey = None\<rparr>)"
  by (simp add: ListItems_options_def Let_def)

lemma parseDecimal_Some_nonempty: "parseDecimal l = Some n \<Longrightarrow> l \<noteq> []"
  by (auto simp: parseDecimal_def)

text \<open>
  Claim C4, as stated, fails. The claim rejects every integer limit that is at most 0 or
  above 100 with code \<open>INVALID_VALUE\<close>. The handler reads the limit with
  \<open>strconv.Atoi\<close>, which returns an error for an integer outside the 64-bit range of
  \<open>int\<close>: the limit 9223372036854775808 (2 to the power 63) is an integer above 100, and
  it is answered with code \<open>INVALID_FORMAT\<close>.
\<close>

theorem ListItems_limit_counterexample:
  "parseDecimal ''9223372036854775808'' = Some 9223372036854775808 \<and>
   (9223372036854775808 :: int) > 100 \<and>
   resp_StatusCode (fst (ItemHandler_ListItems (MockRepository_ListItems None)
      [''limit'' \<mapsto> [''9223372036854775808'']] ())) = 400 \<and>
   resp_ErrorCode (fst (ItemHandler_ListItems (MockRepository_ListItems None)
      [''limit'' \<mapsto> [''9223372036854775808'']] ())) = Some ''INVALID_FORMAT''"
proof -
  have p: "parseDecimal ''9223372036854775808'' = Some 9223372036854775808"
    by (simp add: parseDecimal_def)
  have a: "Atoi ''9223372036854775808'' = None"
    by (simp add: Atoi_def p)
  have g: "Values_Get [''limit'' \<mapsto> [''9223372036854775808'']] ''limit'' = ''9223372036854775808''"
    by (simp add: Values_Get_def)
  have o: "ListItems_options [''limit'' \<mapsto> [''9223372036854775808'']] =
      Inl (NewValidationError CodeInvalidFormat ''Invalid limit parameter''
             [''Limit must be a valid integer''])"
    using ListItems_options_limit [OF g] a by simp
  show ?thesis
    by (simp add: p ItemHandler_ListItems_def o WriteErrorResponse_def writeJSONResponse_def
          NewValidationError_def resp_ErrorCode_def StatusBadRequest_def)
qed

text \<open>
  Claim C4, amended. A limit whose text is an integer that fits a signed 64-bit \<open>int\<close>
  and is at most 0 or above 100 (0 and 101 among them) is answered 400 with code
  \<open>INVALID_VALUE\<close>, and a limit whose text is not an integer (such as \<open>abc\<close>), or is
  an integer outside that range, 400 with code \<open>INVALID_FORMAT\<close>; in both cases the
  response does not depend on the repository and the store is left as it was. When the
  limit is omitted (or empty) the options have the limit 50. Whenever options are
  computed, their limit is between 1 and 100 and the handler passes them to the
  repository.
\<close>

theorem ListItems_limit:
  "(Values_Get query ''limit'' = l \<and> parseDecimal l = Some n \<and>
    - (2 ^ 63) \<le> n \<and> n \<le> 2 ^ 63 - 1 \<and> (n \<le> 0 \<or> n > 100) \<longrightarrow>
      ItemHandler_ListItems repo_ListItems query s =
        (WriteErrorResponse (NewValidationError CodeInvalidValue ''Invalid limit value''
                               [''Limit must be between 1 and 100'']), s)) \<and>
   resp_StatusCode (WriteErrorResponse (NewValidationError CodeInvalidValue ''Invalid limit value''
                               [''Limit must be between 1 and 100''])) = 400 \<and>
   resp_ErrorCode (WriteErrorResponse (NewValidationError CodeInvalidValue ''Invalid limit value''
                               [''Limit must be between 1 and 100''])) = Some ''INVALID_VALUE'' \<and>
   (Values_Get query ''limit'' = l \<and> l \<noteq> [] \<and>
    (parseDecimal l = None \<or> (parseDecimal l = Some n \<and> (n < - (2 ^ 63) \<or> 2 ^ 63 - 1 < n))) \<longrightarrow>
      ItemHandler_ListItems repo_ListItems query s =
        (WriteErrorResponse (NewValidationError CodeInvalidFormat ''Invalid limit parameter''
                               [''Limit must be a valid integer'']), s)) \<and>
   resp_StatusCode (WriteErrorResponse (NewValidationError CodeInvalidFormat ''Invalid limit parameter''
                               [''Limit must be a valid integer''])) = 400 \<and>
   resp_ErrorCode (WriteErrorResponse (NewValidationError CodeInvalidFormat ''Invalid limit parameter''
                               [''Limit must be a valid integer''])) = Some ''INVALID_FORMAT'' \<and>
   (Values_Get query ''limit'' = [] \<longrightarrow>
      ListItems_options query = Inr \<lparr>Limit = 50, LastEvaluatedKey = None\<rparr>) \<and>
   (ListItems_options query = Inr options \<longrightarrow>
      1 \<le> Limit options \<and> Limit options \<le> 100 \<and>
      ItemHandler_ListItems repo_ListItems query s =
        (case repo_ListItems options s of
           (Inl err, s') \<Rightarrow> (WriteRepositoryErrorResponse err, s')
         | (Inr result, s') \<Rightarrow>
             (writeJSONResponse StatusOK
                \<lparr>Success = True, Data = Some (DataMap (ListItems_responseData result)),
                 Error = None\<rparr>, s'))) \<and>
   parseDecimal ''0'' = Some 0 \<and> parseDecimal ''101'' = Some 101 \<and> parseDecimal ''abc'' = None"
proof -
  have c1: "Values_Get query ''limit'' = l \<and> parseDecimal l = Some n \<and>
    - (2 ^ 63) \<le> n \<and> n \<le> 2 ^ 63 - 1 \<and> (n \<le> 0 \<or> n > 100) \<longrightarrow>
      ItemHandler_ListItems repo_ListItems query s =
        (WriteErrorResponse (NewValidationError CodeInvalidValue ''Invalid limit value''
                               [''Limit must be between 1 and 100'']), s)"
  proof (intro impI, elim conjE)
    assume g: "Values_Get query ''limit'' = l" and p: "parseDecimal l = Some n"
      and r: "- (2 ^ 63) \<le> n" "n \<le> 2 ^ 63 - 1" and v: "n \<le> 0 \<or> n > 100"
    have a: "Atoi l = Some n" using p r by (simp add: Atoi_def)
    have "ListItems_options query =
        Inl (NewValidationError CodeInvalidValue ''Invalid limit value''
               [''Limit must be between 1 and 100''])"
      using ListItems_options_limit [OF g parseDecimal_Some_nonempty [OF p]] a v by auto
    then show "ItemHandler_ListItems repo_ListItems query s =
        (WriteErrorResponse (NewValidationError CodeInvalidValue ''Invalid limit value''
                               [''Limit must be between 1 and 100'']), s)"
      by (simp add: ItemHandler_ListItems_def)
  qed
  have c2: "resp_StatusCode (WriteErrorResponse (NewValidationError CodeInvalidValue ''Invalid limit value''
                               [''Limit must be between 1 and 100''])) = 400"
    and c3: "resp_ErrorCode (WriteErrorResponse (NewValidationError CodeInvalidValue ''Invalid limit value''
                               [''Limit must be between 1 and 100''])) = Some ''INVALID_VALUE''"
    and c5: "resp_StatusCode (WriteErrorResponse (NewValidationError CodeInvalidFormat ''Invalid limit parameter''
                               [''Limit must be a valid integer''])) = 400"
    and c6: "resp_ErrorCode (WriteErrorResponse (NewValidationError CodeInvalidFormat ''Invalid limit parameter''
                               [''Limit must be a valid integer''])) = Some ''INVALID_FORMAT''"
    by (simp_all add: WriteErrorResponse_def writeJSONResponse_def NewValidationError_def
          resp_ErrorCode_def StatusBadRequest_def)
  have c4: "Values_Get query ''limit'' = l \<and> l \<noteq> [] \<and>
    (parseDecimal l = None \<or> (parseDecimal l = Some n \<and> (n < - (2 ^ 63) \<or> 2 ^ 63 - 1 < n))) \<longrightarrow>
      ItemHandler_ListItems repo_ListItems query s =
        (WriteErrorResponse (NewValidationError CodeInvalidFormat ''Invalid limit parameter''
                               [''Limit must be a valid integer'']), s)"
  proof (intro impI, elim conjE)
    assume g: "Values_Get query ''limit'' = l" and ne: "l \<noteq> []"
      and p: "parseDecimal l = None \<or> (parseDecimal l = Some n \<and> (n < - (2 ^ 63) \<or> 2 ^ 63 - 1 < n))"
    have a: "Atoi l = None" using p by (auto simp: Atoi_def)
    have "ListItems_options query =
        Inl (NewValidationError CodeInvalidFormat ''Invalid limit parameter''
               [''Limit must be a valid integer''])"
      using ListItems_options_limit [OF g ne] a by simp
    then show "ItemHandler_ListItems repo_ListItems query s =
        (WriteErrorResponse (NewValidationError CodeInvalidFormat ''Invalid limit parameter''
                               [''Limit must be a valid integer'']), s)"
      by (simp add: ItemHandler_ListItems_def)
  qed
  have c7: "Values_Get query ''limit'' = [] \<longrightarrow>
      ListItems_options query = Inr \<lparr>Limit = 50, LastEvaluatedKey = None\<rparr>"
    by (simp add: ListItems_options_def)
  have c8: "ListItems_options query = Inr options \<longrightarrow>
      1 \<le> Limit options \<and> Limit options \<le> 100 \<and>
      ItemHandler_ListItems repo_ListItems query s =
        (case repo_ListItems options s of
           (Inl err, s') \<Rightarrow> (WriteRepositoryErrorResponse err, s')
         | (Inr result, s') \<Rightarrow>
             (writeJSONResponse StatusOK
                \<lparr>Success = True, Data = Some (DataMap (ListItems_responseData result)),
                 Error = None\<rparr>, s'))"
  proof (intro impI conjI)
    assume o: "ListItems_options query = Inr options"
    then show "1 \<le> Limit options" "Limit options \<le> 100"
      by (auto simp: ListItems_options_def Let_def split: if_splits option.splits)
    from o show "ItemHandler_ListItems repo_ListItems query s =
        (case repo_ListItems options s of
           (Inl err, s') \<Rightarrow> (WriteRepositoryErrorResponse err, s')
         | (Inr result, s') \<Rightarrow>
             (writeJSONResponse StatusOK
                \<lparr>Success = True, Data = Some (DataMap (ListItems_responseData result)),
                 Error = None\<rparr>, s'))"
      by (simp add: ItemHandler_ListItems_def)
  qed
  have c9: "parseDecimal ''0'' = Some 0" and c10: "parseDecimal ''101'' = Some 101"
    and c11: "parseDecimal ''abc'' = None"
    by (simp_all add: parseDecimal_def)
  show ?thesis
    by (intro conjI) (rule c1 c2 c3 c4 c5 c6 c7 c8 c9 c10 c11)+
qed

text \<open>
  The amended claim C4 on the limits \<open>0\<close>, \<open>101\<close> and \<open>abc\<close> and on a request without
  a limit, through the test double.
\<close>

theorem ListItems_limit_witness:
  "Values_Get [''limit'' \<mapsto> [''0'']] ''limit'' = ''0'' \<and> parseDecimal ''0'' = Some 0 \<and>
   resp_StatusCode (fst (ItemHandler_ListItems (MockRepository_ListItems None) [''limit'' \<mapsto> [''0'']] ())) = 400 \<and>
   resp_ErrorCode (fst (ItemHandler_ListItems (MockRepository_ListItems None) [''limit'' \<mapsto> [''0'']] ()))
     = Some ''INVALID_VALUE'' \<and>
   Values_Get [''limit'' \<mapsto> [''101'']] ''limit'' = ''101'' \<and> parseDecimal ''101'' = Some 101 \<and>
   resp_ErrorCode (fst (ItemHandler_ListItems (MockRepository_ListItems None) [''limit'' \<mapsto> [''101'']] ()))
     = Some ''INVALID_VALUE'' \<and>
   Values_Get [''limit'' \<mapsto> [''abc'']] ''limit'' = ''abc'' \<and> parseDecimal ''abc'' = None \<and>
   resp_StatusCode (fst (ItemHandler_ListItems (MockRepository_ListItems None) [''limit'' \<mapsto> [''abc'']] ())) = 400 \<and>
   resp_ErrorCode (fst (ItemHandler_ListItems (MockRepository_ListItems None) [''limit'' \<mapsto> [''abc'']] ()))
     = Some ''INVALID_FORMAT'' \<and>
   Values_Get Map.empty ''limit'' = [] \<and>
   ListItems_options Map.empty = Inr \<lparr>Limit = 50, LastEvaluatedKey = None\<rparr> \<and>
   resp_StatusCode (fst (ItemHandler_ListItems (MockRepository_ListItems None) Map.empty ())) = 200"
proof -
  have g: "Values_Get [''limit'' \<mapsto> [''0'']] ''limit'' = ''0''"
    "Values_Get [''limit'' \<mapsto> [''101'']] ''limit'' = ''101''"
    "Values_Get [''limit'' \<mapsto> [''abc'']] ''limit'' = ''abc''"
    "Values_Get Map.empty ''limit'' = []"
    by (simp_all add: Values_Get_def)
  have p: "parseDecimal ''0'' = Some 0" "parseDecimal ''101'' = Some 101" "parseDecimal ''abc'' = None"
    by (simp_all add: parseDecimal_def)
  have st: "resp_StatusCode (WriteErrorResponse (NewValidationError CodeInvalidValue ''Invalid limit value''
                               [''Limit must be between 1 and 100''])) = 400"
    using ListItems_limit
      [where repo_ListItems = "MockRepository_ListItems None" and s = "()"
         and query = "[''limit'' \<mapsto> [''0'']]" and l = "''0''" and n = "0"
         and options = "\<lparr>Limit = 50, LastEvaluatedKey = None\<rparr>",
       THEN conjunct2, THEN conjunct1] .
  have cv: "resp_ErrorCode (WriteErrorResponse (NewValidationError CodeInvalidValue ''Invalid limit value''
                               [''Limit must be between 1 and 100''])) = Some ''INVALID_VALUE''"
    using ListItems_limit
      [where repo_ListItems = "MockRepository_ListItems None" and s = "()"
         and query = "[''limit'' \<mapsto> [''0'']]" and l = "''0''" and n = "0"
         and options = "\<lparr>Limit = 50, LastEvaluatedKey = None\<rparr>",
       THEN conjunct2, THEN conjunct2, THEN conjunct1] .
  have sf: "resp_StatusCode (WriteErrorResponse (NewValidationError CodeInvalidFormat ''Invalid limit parameter''
                               [''Limit must be a valid integer''])) = 400"
    using ListItems_limit
      [where repo_ListItems = "MockRepository_ListItems None" and s = "()"
         and query = "[''limit'' \<mapsto> [''0'']]" and l = "''0''" and n = "0"
         and options = "\<lparr>Limit = 50, LastEvaluatedKey = None\<rparr>",
       THEN conjunct2, THEN conjunct2, THEN conjunct2, THEN conjunct2, THEN conjunct1] .
  have cf: "resp_ErrorCode (WriteErrorResponse (NewValidationError CodeInvalidFormat ''Invalid limit parameter''
                               [''Limit must be a valid integer''])) = Some ''INVALID_FORMAT''"
    using ListItems_limit
      [where repo_ListItems = "MockRepository_ListItems None" and s = "()"
         and query = "[''limit'' \<mapsto> [''0'']]" and l = "''0''" and n = "0"
         and options = "\<lparr>Limit = 50, LastEvaluatedKey = None\<rparr>",
       THEN conjunct2, THEN conjunct2, THEN conjunct2, THEN conjunct2, THEN conjunct2, THEN conjunct1] .
  have a: "ItemHandler_ListItems (MockRepository_ListItems None) [''limit'' \<mapsto> [''0'']] () =
        (WriteErrorResponse (NewValidationError CodeInvalidValue ''Invalid limit value''
                               [''Limit must be between 1 and 100'']), ())"
    using ListItems_limit
      [where repo_ListItems = "MockRepository_ListItems None" and s = "()"
         and query = "[''limit'' \<mapsto> [''0'']]" and l = "''0''" and n = "0"
         and options = "\<lparr>Limit = 50, LastEvaluatedKey = None\<rparr>",
       THEN conjunct1] g(1) p(1)
    by simp
  have b: "ItemHandler_ListItems (MockRepository_ListItems None) [''limit'' \<mapsto> [''101'']] () =
        (WriteErrorResponse (NewValidationError CodeInvalidValue ''Invalid limit value''
                               [''Limit must be between 1 and 100'']), ())"
    using ListItems_limit
      [where repo_ListItems = "MockRepository_ListItems None" and s = "()"
         and query = "[''limit'' \<mapsto> [''101'']]" and l = "''101''" and n = "101"
         and options = "\<lparr>Limit = 50, LastEvaluatedKey = None\<rparr>",
       THEN conjunct1] g(2) p(2)
    by simp
  have c: "ItemHandler_ListItems (MockRepository_ListItems None) [''limit'' \<mapsto> [''abc'']] () =
        (WriteErrorResponse (NewValidationError CodeInvalidFormat ''Invalid limit parameter''
                               [''Limit must be a valid integer'']), ())"
    using ListItems_limit
      [where repo_ListItems = "MockRepository_ListItems None" and s = "()"
         and query = "[''limit'' \<mapsto> [''abc'']]" and l = "''abc''" and n = "0"
         and options = "\<lparr>Limit = 50, LastEvaluatedKey = None\<rparr>",
       THEN conjunct2, THEN conjunct2, THEN conjunct2, THEN conjunct1] g(3) p(3)
    by simp
  have d: "ListItems_options Map.empty = Inr \<lparr>Limit = 50, LastEvaluatedKey = None\<rparr>"
    using ListItems_limit
      [where repo_ListItems = "MockRepository_ListItems None" and s = "()"
         and query = "Map.empty" and l = "[]" and n = "0"
         and options = "\<lparr>Limit = 50, LastEvaluatedKey = None\<rparr>",
       THEN conjunct2, THEN conjunct2, THEN conjunct2, THEN conjunct2, THEN conjunct2, THEN conjunct2, THEN conjunct1] g(4)
    by simp
  have e: "ItemHandler_ListItems (MockRepository_ListItems None) Map.empty () =
        (case MockRepository_ListItems None \<lparr>Limit = 50, LastEvaluatedKey = None\<rparr> () of
           (Inl err, s') \<Rightarrow> (WriteRepositoryErrorResponse err, s')
         | (Inr result, s') \<Rightarrow>
             (writeJSONResponse StatusOK
                \<lparr>Success = True, Data = Some (DataMap (ListItems_responseData result)),
                 Error = None\<rparr>, s'))"
    using ListItems_limit
      [where repo_ListItems = "MockRepository_ListItems None" and s = "()"
         and query = "Map.empty" and l = "[]" and n = "0"
         and options = "\<lparr>Limit = 50, LastEvaluatedKey = None\<rparr>",
       THEN conjunct2, THEN conjunct2, THEN conjunct2, THEN conjunct2, THEN conjunct2, THEN conjunct2, THEN conjunct2, THEN conjunct1] d
    by simp
  have f: "resp_StatusCode (fst (ItemHandler_ListItems (MockRepository_ListItems None) Map.empty ())) = 200"
    by (simp add: e MockRepository_ListItems_def writeJSONResponse_def StatusOK_def)
  show ?thesis
    using g p d f by (simp add: a b c st cv sf cf)
qed

text \<open>
  Claim C8 on the code: a successful \<open>DELETE\<close> of \<open>test-id\<close> is answered 200 with a
  success envelope whose data has the field \<open>message\<close> and holds the identifier in the
  field \<open>id\<close>; there is no field \<open>deleted_id\<close>, which is the name the claim and the
  README give.
\<close>

theorem DeleteItem_payload_field_name:
  "resp_StatusCode (fst (ItemHandler_DeleteItem (MockRepository_DeleteItem None) ''test-id'' ())) = 200 \<and>
   Success (resp_Body (fst (ItemHandler_DeleteItem (MockRepository_DeleteItem None) ''test-id'' ()))) \<and>
   resp_DataField (fst (ItemHandler_DeleteItem (MockRepository_DeleteItem None) ''test-id'' ())) ''message''
     = Some (JString ''Item deleted successfully'') \<and>
   resp_DataField (fst (ItemHandler_DeleteItem (MockRepository_DeleteItem None) ''test-id'' ())) ''id''
     = Some (JString ''test-id'') \<and>
   resp_DataField (fst (ItemHandler_DeleteItem (MockRepository_DeleteItem None) ''test-id'' ())) ''deleted_id''
     = None"
  by (simp add: ItemHandler_DeleteItem_def MockRepository_DeleteItem_def writeJSONResponse_def
        resp_DataField_def StatusOK_def)

lemma ErrorType_string_nonempty: "ErrorType_string t \<noteq> []"
  by (cases t) simp_all

lemma ErrorCode_string_nonempty: "ErrorCode_string c \<noteq> []"
  by (cases c) simp_all

lemma WriteErrorResponse_envelope:
  "Message a \<noteq> [] \<Longrightarrow> envelope_exclusive (resp_Body (WriteErrorResponse a))"
  by (simp add: WriteErrorResponse_def writeJSONResponse_def envelope_exclusive_def
        ErrorType_string_nonempty ErrorCode_string_nonempty)

lemma MapRepositoryError_Message_nonempty: "Message (MapRepositoryError_nonnil err) \<noteq> []"
  by (simp add: MapRepositoryError_nonnil_def)

lemma WriteRepositoryErrorResponse_envelope:
  "envelope_exclusive (resp_Body (WriteRepositoryErrorResponse err))"
  by (simp add: WriteRepositoryErrorResponse_def WriteErrorResponse_envelope
        MapRepositoryError_Message_nonempty)

lemma WriteJSONParseErrorResponse_envelope:
  "envelope_exclusive (resp_Body (WriteJSONParseErrorResponse err))"
  by (simp add: WriteJSONParseErrorResponse_def WriteErrorResponse_envelope)

lemma WriteMissingParameterErrorResponse_envelope:
  "envelope_exclusive (resp_Body (WriteMissingParameterErrorResponse p))"
  by (simp add: WriteMissingParameterErrorResponse_def WriteErrorResponse_envelope)

lemma CreateItemRequest_Validate_text:
  "CreateItemRequest_Validate r = Some err \<Longrightarrow> Error_text err \<noteq> []"
  by (auto simp: CreateItemRequest_Validate_def split: if_splits)

lemma UpdateItemRequest_Validate_text:
  "UpdateItemRequest_Validate r = Some err \<Longrightarrow> Error_text err \<noteq> []"
  by (auto simp: UpdateItemRequest_Validate_def split: if_splits)

lemma WriteValidationErrorResponse_envelope:
  "Error_text err \<noteq> [] \<Longrightarrow> envelope_exclusive (resp_Body (WriteValidationErrorResponse err))"
  by (simp add: WriteValidationErrorResponse_def WriteErrorResponse_envelope
        MapValidationError_nonnil_def Let_def)

lemma success_envelope:
  "envelope_exclusive (resp_Body (writeJSONResponse st \<lparr>Success = True, Data = Some d, Error = None\<rparr>))"
  by (simp add: writeJSONResponse_def envelope_exclusive_def)

lemmas envelope_facts =
  WriteRepositoryErrorResponse_envelope WriteJSONParseErrorResponse_envelope
  WriteMissingParameterErrorResponse_envelope WriteValidationErrorResponse_envelope
  success_envelope CreateItemRequest_Validate_text UpdateItemRequest_Validate_text

lemma CreateItem_envelope:
  "envelope_exclusive (resp_Body (fst (ItemHandler_CreateItem repo now body s)))"
  by (auto simp: ItemHandler_CreateItem_def envelope_facts
        split: sum.splits option.splits prod.splits)

lemma GetItem_envelope:
  "envelope_exclusive (resp_Body (fst (ItemHandler_GetItem repo itemID s)))"
  by (auto simp: ItemHandler_GetItem_def envelope_facts
        split: sum.splits option.splits prod.splits)

lemma ListItems_envelope:
  "envelope_exclusive (resp_Body (fst (ItemHandler_ListItems repo query s)))"
proof (cases "ListItems_options query")
  case (Inl a)
  then have "Message a \<noteq> []"
    by (auto simp: ListItems_options_def Let_def NewValidationError_def
          split: if_splits option.splits)
  with Inl show ?thesis
    by (simp add: ItemHandler_ListItems_def WriteErrorResponse_envelope)
next
  case (Inr b)
  then show ?thesis
    by (auto simp: ItemHandler_ListItems_def envelope_facts split: sum.splits prod.splits)
qed

lemma UpdateItem_envelope:
  "envelope_exclusive (resp_Body (fst (ItemHandler_UpdateItem repo itemID body s)))"
  by (auto simp: ItemHandler_UpdateItem_def envelope_facts
        split: sum.splits option.splits prod.splits)

lemma DeleteItem_envelope:
  "envelope_exclusive (resp_Body (fst (ItemHandler_DeleteItem repo itemID s)))"
  by (auto simp: ItemHandler_DeleteItem_def envelope_facts
        split: sum.splits option.splits prod.splits)

text \<open>
  Claim C9, as stated, fails. \<open>HealthCheckDB\<close> is a handler; when the repository is not
  a \<open>DynamoDBRepository\<close> (and likewise when the connectivity check fails) it answers
  503 with \<open>success\<close> false, a data payload and no error object.
\<close>

theorem HealthCheckDB_envelope_counterexample:
  "\<not> Success (resp_Body (ItemHandler_HealthCheckDB None)) \<and>
   Data (resp_Body (ItemHandler_HealthCheckDB None)) \<noteq> None \<and>
   Error (resp_Body (ItemHandler_HealthCheckDB None)) = None \<and>
   resp_StatusCode (ItemHandler_HealthCheckDB None) = 503 \<and>
   \<not> envelope_exclusive (resp_Body (ItemHandler_HealthCheckDB None))"
  by (simp add: ItemHandler_HealthCheckDB_def writeJSONResponse_def envelope_exclusive_def
        StatusServiceUnavailable_def)

text \<open>
  Claim C9, amended. Every envelope produced by \<open>HealthCheck\<close>, by the five item
  handlers (for every repository, request and state of the store), and by
  \<open>HealthCheckDB\<close> when the connectivity check succeeds, has either \<open>success\<close> true, a
  data payload and no error object, or \<open>success\<close> false, an error object with a type, a
  code and a message, and no data payload.
\<close>

theorem handlers_envelope_exclusive:
  "envelope_exclusive (resp_Body ItemHandler_HealthCheck) \<and>
   envelope_exclusive (resp_Body (ItemHandler_HealthCheckDB (Some (tableName, None)))) \<and>
   envelope_exclusive (resp_Body (fst (ItemHandler_CreateItem repo_CreateItem now createBody s))) \<and>
   envelope_exclusive (resp_Body (fst (ItemHandler_GetItem repo_GetItem itemID s))) \<and>
   envelope_exclusive (resp_Body (fst (ItemHandler_ListItems repo_ListItems query s))) \<and>
   envelope_exclusive (resp_Body (fst (ItemHandler_UpdateItem repo_UpdateItem itemID updateBody s))) \<and>
   envelope_exclusive (resp_Body (fst (ItemHandler_DeleteItem repo_DeleteItem itemID s)))"
proof -
  have h: "envelope_exclusive (resp_Body ItemHandler_HealthCheck)"
    by (simp add: ItemHandler_HealthCheck_def success_envelope)
  have d: "envelope_exclusive (resp_Body (ItemHandler_HealthCheckDB (Some (tableName, None))))"
    by (simp add: ItemHandler_HealthCheckDB_def ClientManager_HealthCheck_def
          writeJSONResponse_def envelope_exclusive_def)
  show ?thesis
    by (intro conjI)
       (rule h d CreateItem_envelope GetItem_envelope ListItems_envelope UpdateItem_envelope
          DeleteItem_envelope)+
qed

text \<open>The amended claim C9 on a failing and on a successful \<open>GetItem\<close>.\<close>

theorem handlers_envelope_exclusive_witness:
  "envelope_exclusive (resp_Body (fst (ItemHandler_GetItem (MockRepository_GetItem (Some ErrItemNotFound))
      ''nonexistent'' ()))) \<and>
   \<not> Success (resp_Body (fst (ItemHandler_GetItem (MockRepository_GetItem (Some ErrItemNotFound))
      ''nonexistent'' ()))) \<and>
   envelope_exclusive (resp_Body (fst (ItemHandler_GetItem (MockRepository_GetItem None) ''test-id'' ()))) \<and>
   Success (resp_Body (fst (ItemHandler_GetItem (MockRepository_GetItem None) ''test-id'' ())))"
proof -
  have a: "envelope_exclusive (resp_Body (fst (ItemHandler_GetItem (MockRepository_GetItem (Some ErrItemNotFound))
      ''nonexistent'' ())))"
    using handlers_envelope_exclusive
      [where repo_GetItem = "MockRepository_GetItem (Some ErrItemNotFound)" and itemID = "''nonexistent''"
         and s = "()", THEN conjunct2, THEN conjunct2, THEN conjunct2, THEN conjunct1] .
  have b: "envelope_exclusive (resp_Body (fst (ItemHandler_GetItem (MockRepository_GetItem None) ''test-id'' ())))"
    using handlers_envelope_exclusive
      [where repo_GetItem = "MockRepository_GetItem None" and itemID = "''test-id''"
         and s = "()", THEN conjunct2, THEN conjunct2, THEN conjunct2, THEN conjunct1] .
  have c: "\<not> Success (resp_Body (fst (ItemHandler_GetItem (MockRepository_GetItem (Some ErrItemNotFound))
      ''nonexistent'' ())))"
    by (simp add: ItemHandler_GetItem_def MockRepository_GetItem_def WriteRepositoryErrorResponse_def
          WriteErrorResponse_def writeJSONResponse_def)
  have d: "Success (resp_Body (fst (ItemHandler_GetItem (MockRepository_GetItem None) ''test-id'' ())))"
    by (simp add: ItemHandler_GetItem_def MockRepository_GetItem_def writeJSONResponse_def)
  show ?thesis using a b c d by simp
qed

text \<open>
  \<open>HealthCheckDB\<close> when the repository is a \<open>DynamoDBRepository\<close> and \<open>DescribeTable\<close>
  fails: 503 with \<open>success\<close> false, the data payload and no error object.
\<close>

lemma HealthCheckDB_failing_check:
  "ItemHandler_HealthCheckDB (Some (tableName, Some err)) =
     \<lparr>resp_StatusCode = 503,
      resp_Body = \<lparr>Success = False,
                   Data = Some (DataMap [''status'' \<mapsto> JString ''unhealthy'',
                                         ''service'' \<mapsto> JString ''DynamoDB'',
                                         ''message'' \<mapsto> JString (''DynamoDB health check failed: '' @ Error_text err),
                                         ''tableName'' \<mapsto> JString tableName]),
                   Error = None\<rparr>\<rparr>"
  by (simp add: ItemHandler_HealthCheckDB_def ClientManager_HealthCheck_def getTableName_def
        writeJSONResponse_def StatusServiceUnavailable_def)

subsection \<open>The handlers on the DynamoDB adapter\<close>

lemma HandleDynamoDBError_conditional:
  "HandleDynamoDBError_nonnil (AwsError ConditionalCheckFailedException m) =
     Errorf [] ErrItemAlreadyExists '': conditional check failed''"
  by (simp add: HandleDynamoDBError_nonnil_def)

lemma DeleteItem_absent:
  "key \<noteq> [] \<Longrightarrow> tbl key = None \<Longrightarrow>
   ItemHandler_DeleteItem DynamoDBRepository_DeleteItem key tbl =
     (WriteRepositoryErrorResponse (Errorf [] ErrItemAlreadyExists '': conditional check failed''), tbl)"
  by (simp add: ItemHandler_DeleteItem_def DynamoDBRepository_DeleteItem_def dynamodb_DeleteItem_def
        HandleDynamoDBError_conditional)

lemma DeleteItem_present:
  "key \<noteq> [] \<Longrightarrow> tbl key = Some av \<Longrightarrow>
   ItemHandler_DeleteItem DynamoDBRepository_DeleteItem key tbl =
     (writeJSONResponse StatusOK
        \<lparr>Success = True,
         Data = Some (DataMap [''message'' \<mapsto> JString ''Item deleted successfully'',
                               ''id'' \<mapsto> JString key]),
         Error = None\<rparr>, tbl(key := None))"
  by (simp add: ItemHandler_DeleteItem_def DynamoDBRepository_DeleteItem_def dynamodb_DeleteItem_def)

lemma applySet_UpdateItem_input:
  "\<exists>new. applySet (ui_UpdateExpression (UpdateItem_input now key updates))
            (ui_ExpressionAttributeNames (UpdateItem_input now key updates))
            (ui_ExpressionAttributeValues (UpdateItem_input now key updates)) old = Some new"
  by (simp add: UpdateItem_input_def Let_def)

lemma UpdateItem_absent:
  "key \<noteq> [] \<Longrightarrow> UpdateItemRequest_Validate updates = None \<Longrightarrow> tbl key = None \<Longrightarrow>
   ItemHandler_UpdateItem (DynamoDBRepository_UpdateItem now) key (Inr updates) tbl =
     (WriteRepositoryErrorResponse (Errorf [] ErrItemAlreadyExists '': conditional check failed''), tbl)"
proof -
  assume k: "key \<noteq> []" and v: "UpdateItemRequest_Validate updates = None" and t: "tbl key = None"
  obtain new where n: "applySet (ui_UpdateExpression (UpdateItem_input now key updates))
            (ui_ExpressionAttributeNames (UpdateItem_input now key updates))
            (ui_ExpressionAttributeValues (UpdateItem_input now key updates)) Map.empty = Some new"
    using applySet_UpdateItem_input by blast
  have kk: "ui_Key (UpdateItem_input now key updates) = key"
    by (simp add: UpdateItem_input_def Let_def)
  have "dynamodb_UpdateItem (UpdateItem_input now key updates) tbl =
      (Inl (AwsError ConditionalCheckFailedException ''The conditional request failed''), tbl)"
    by (simp add: dynamodb_UpdateItem_def kk t n)
  then show ?thesis
    using k v
    by (simp add: ItemHandler_UpdateItem_def DynamoDBRepository_UpdateItem_def
          HandleDynamoDBError_conditional)
qed

lemma conflict_response:
  "resp_StatusCode (WriteRepositoryErrorResponse (Errorf [] ErrItemAlreadyExists '': conditional check failed'')) = 409"
  "resp_ErrorCode (WriteRepositoryErrorResponse (Errorf [] ErrItemAlreadyExists '': conditional check failed''))
     = Some ''ALREADY_EXISTS''"
  "resp_ErrorType (WriteRepositoryErrorResponse (Errorf [] ErrItemAlreadyExists '': conditional check failed''))
     = Some ''conflict''"
  by (simp_all add: WriteRepositoryErrorResponse_def WriteErrorResponse_def writeJSONResponse_def
        MapRepositoryError_nonnil_def IsNotFoundError_def IsConflictError_def
        resp_ErrorCode_def resp_ErrorType_def StatusConflict_def)

text \<open>
  Claim C1 on the code. Deleting \<open>item-1\<close> from a table that holds it is answered 200;
  deleting it again is answered 409 with code \<open>ALREADY_EXISTS\<close>, where the claim says
  404 with code \<open>NOT_FOUND\<close>. For an identifier that is not in the table, \<open>DeleteItem\<close>
  of the adapter returns an error that wraps \<open>ErrItemAlreadyExists\<close>, not
  \<open>ErrItemNotFound\<close>, and both the delete and the update handler answer 409
  \<open>ALREADY_EXISTS\<close>: the failed condition \<open>attribute_exists(id)\<close> reaches
  \<open>HandleDynamoDBError\<close>, which translates every failed condition to AlreadyExists.
\<close>

theorem Delete_twice_second_is_conflict:
  "resp_StatusCode (fst (ItemHandler_DeleteItem DynamoDBRepository_DeleteItem ''item-1''
      [''item-1'' \<mapsto> MarshalMap \<lparr>ID = ''item-1'', Name = ''Test Item'', Description = ''d'',
                                    CreatedAt = 1, UpdatedAt = 1, Status = ''active''\<rparr>])) = 200 \<and>
   resp_StatusCode (fst (ItemHandler_DeleteItem DynamoDBRepository_DeleteItem ''item-1''
      (snd (ItemHandler_DeleteItem DynamoDBRepository_DeleteItem ''item-1''
         [''item-1'' \<mapsto> MarshalMap \<lparr>ID = ''item-1'', Name = ''Test Item'', Description = ''d'',
                                       CreatedAt = 1, UpdatedAt = 1, Status = ''active''\<rparr>])))) = 409 \<and>
   resp_ErrorCode (fst (ItemHandler_DeleteItem DynamoDBRepository_DeleteItem ''item-1''
      (snd (ItemHandler_DeleteItem DynamoDBRepository_DeleteItem ''item-1''
         [''item-1'' \<mapsto> MarshalMap \<lparr>ID = ''item-1'', Name = ''Test Item'', Description = ''d'',
                                       CreatedAt = 1, UpdatedAt = 1, Status = ''active''\<rparr>]))))
     = Some ''ALREADY_EXISTS'' \<and>
   fst (DynamoDBRepository_DeleteItem ''nonexistent-id'' Map.empty)
     = Some (Errorf [] ErrItemAlreadyExists '': conditional check failed'') \<and>
   \<not> IsNotFoundError (Errorf [] ErrItemAlreadyExists '': conditional check failed'') \<and>
   resp_StatusCode (fst (ItemHandler_DeleteItem DynamoDBRepository_DeleteItem ''nonexistent-id'' Map.empty))
     = 409 \<and>
   resp_StatusCode (fst (ItemHandler_UpdateItem (DynamoDBRepository_UpdateItem 5) ''nonexistent-id''
      (Inr \<lparr>ur_Name = [], ur_Description = [], ur_Status = ''inactive''\<rparr>) Map.empty)) = 409 \<and>
   resp_ErrorCode (fst (ItemHandler_UpdateItem (DynamoDBRepository_UpdateItem 5) ''nonexistent-id''
      (Inr \<lparr>ur_Name = [], ur_Description = [], ur_Status = ''inactive''\<rparr>) Map.empty))
     = Some ''ALREADY_EXISTS''"
proof -
  let ?it = "MarshalMap \<lparr>ID = ''item-1'', Name = ''Test Item'', Description = ''d'',
                         CreatedAt = 1, UpdatedAt = 1, Status = ''active''\<rparr>"
  have first: "ItemHandler_DeleteItem DynamoDBRepository_DeleteItem ''item-1'' [''item-1'' \<mapsto> ?it] =
     (writeJSONResponse StatusOK
        \<lparr>Success = True,
         Data = Some (DataMap [''message'' \<mapsto> JString ''Item deleted successfully'',
                               ''id'' \<mapsto> JString ''item-1'']),
         Error = None\<rparr>, [''item-1'' \<mapsto> ?it](''item-1'' := None))"
    by (rule DeleteItem_present) simp_all
  have second: "ItemHandler_DeleteItem DynamoDBRepository_DeleteItem ''item-1''
        ([''item-1'' \<mapsto> ?it](''item-1'' := None)) =
     (WriteRepositoryErrorResponse (Errorf [] ErrItemAlreadyExists '': conditional check failed''),
      [''item-1'' \<mapsto> ?it](''item-1'' := None))"
    by (rule DeleteItem_absent) simp_all
  have third: "ItemHandler_DeleteItem DynamoDBRepository_DeleteItem ''nonexistent-id'' Map.empty =
     (WriteRepositoryErrorResponse (Errorf [] ErrItemAlreadyExists '': conditional check failed''),
      Map.empty)"
    by (rule DeleteItem_absent) simp_all
  have port: "fst (DynamoDBRepository_DeleteItem ''nonexistent-id'' Map.empty)
     = Some (Errorf [] ErrItemAlreadyExists '': conditional check failed'')"
    by (simp add: DynamoDBRepository_DeleteItem_def dynamodb_DeleteItem_def
          HandleDynamoDBError_conditional)
  have v: "UpdateItemRequest_Validate \<lparr>ur_Name = [], ur_Description = [], ur_Status = ''inactive''\<rparr> = None"
    by (simp add: UpdateItemRequest_Validate_def isValidStatus_def)
  have upd: "ItemHandler_UpdateItem (DynamoDBRepository_UpdateItem 5) ''nonexistent-id''
      (Inr \<lparr>ur_Name = [], ur_Description = [], ur_Status = ''inactive''\<rparr>) Map.empty =
     (WriteRepositoryErrorResponse (Errorf [] ErrItemAlreadyExists '': conditional check failed''),
      Map.empty)"
    by (rule UpdateItem_absent [OF _ v]) simp_all
  show ?thesis
    unfolding first second third upd port snd_conv fst_conv conflict_response
    by (simp add: writeJSONResponse_def StatusOK_def IsNotFoundError_def)
qed

lemma uuid_String_nonempty: "uuid_String u \<noteq> []"
  by (simp add: uuid_String_def)

lemma isValidStatus_active: "isValidStatus ''active''"
  by (simp add: isValidStatus_def)

lemma MarshalMap_id: "MarshalMap item ''id'' = Some (AttributeValueMemberS (ID item))"
  by (simp add: MarshalMap_def)

text \<open>
  The create handler on the DynamoDB adapter, for a request within the limits as the code
  measures them (bytes) and a table with no item under the identifier drawn by
  \<open>uuid.New()\<close>: the answer is 201 with the item, which has that identifier (never
  empty), the status \<open>active\<close> and one instant as \<open>created_at\<close> and \<open>updated_at\<close>, and
  the item is stored.
\<close>

lemma CreateItem_within_byte_limits:
  assumes "length (cr_Name req) \<le> 100" and "TrimSpace (cr_Name req) \<noteq> []"
    and "length (cr_Description req) \<le> 500" and "TrimSpace (cr_Description req) \<noteq> []"
    and "tbl (uuid_String uuid) = None"
  shows "ItemHandler_CreateItem (DynamoDBRepository_CreateItem uuid) now (Inr req) tbl =
           (\<lparr>resp_StatusCode = 201,
             resp_Body = \<lparr>Success = True,
                          Data = Some (DataItem \<lparr>ID = uuid_String uuid, Name = cr_Name req,
                                                 Description = cr_Description req, CreatedAt = now,
                                                 UpdatedAt = now, Status = ''active''\<rparr>),
                          Error = None\<rparr>\<rparr>,
            tbl(uuid_String uuid \<mapsto>
                  MarshalMap \<lparr>ID = uuid_String uuid, Name = cr_Name req,
                              Description = cr_Description req, CreatedAt = now,
                              UpdatedAt = now, Status = ''active''\<rparr>)) \<and>
         uuid_String uuid \<noteq> []"
proof -
  let ?item = "\<lparr>ID = uuid_String uuid, Name = cr_Name req, Description = cr_Description req,
                CreatedAt = now, UpdatedAt = now, Status = ''active''\<rparr>"
  have v: "CreateItemRequest_Validate req = None"
    using assms by (simp add: CreateItemRequest_Validate_def)
  have iv: "Item_Validate ?item = None"
    using assms by (simp add: Item_Validate_def isValidStatus_active)
  have put: "dynamodb_PutItem (MarshalMap ?item) tbl = (None, tbl(uuid_String uuid \<mapsto> MarshalMap ?item))"
    using assms(5) by (simp add: dynamodb_PutItem_def MarshalMap_id uuid_String_nonempty)
  have repo: "DynamoDBRepository_CreateItem uuid (NewItem now (cr_Name req) (cr_Description req)) tbl =
      ((None, ?item), tbl(uuid_String uuid \<mapsto> MarshalMap ?item))"
    by (simp add: DynamoDBRepository_CreateItem_def NewItem_def Let_def iv put)
  show ?thesis
    by (simp add: ItemHandler_CreateItem_def v repo StatusCreated_def uuid_String_nonempty
          writeJSONResponse_def)
qed

lemma name_too_long_response:
  "WriteValidationErrorResponse ErrNameTooLong =
     \<lparr>resp_StatusCode = 400,
      resp_Body = \<lparr>Success = False, Data = None,
                   Error = Some \<lparr>ei_Code = ''VALUE_TOO_LONG'',
                                 ei_Message = ''name cannot exceed 100 characters'',
                                 ei_Type = ''validation'', ei_Details = []\<rparr>\<rparr>\<rparr>"
proof -
  have m: "toLower ''name cannot exceed 100 characters'' = ''name cannot exceed 100 characters''"
    by code_simp
  have n1: "\<not> contains ''name cannot exceed 100 characters'' ''empty''" by code_simp
  have n2: "\<not> contains ''name cannot exceed 100 characters'' ''required''" by code_simp
  have n3: "\<not> contains ''name cannot exceed 100 characters'' ''too long''" by code_simp
  have y: "contains ''name cannot exceed 100 characters'' ''exceed''" by code_simp
  have "MapValidationError_nonnil ErrNameTooLong =
      \<lparr>Type = ErrorTypeValidation, Code = CodeValueTooLong,
       Message = ''name cannot exceed 100 characters'', Details = [],
       StatusCode = StatusBadRequest, Cause = Some ErrNameTooLong\<rparr>"
    using n1 n2 n3 y
    by (simp add: MapValidationError_nonnil_def Let_def containsError_def containsAnyKeyword_def
          m toLower_keywords)
  then show ?thesis
    by (simp add: WriteValidationErrorResponse_def WriteErrorResponse_def writeJSONResponse_def
          StatusBadRequest_def)
qed

text \<open>
  Claim C2 on the code. A create request whose name is 51 letters U+00E9 (51 characters,
  not blank) and whose description is \<open>d\<close> is within the claim's limits of 1 to 100 and 1
  to 500 characters, so the claim answers it 201. The handler answers 400 with code
  \<open>VALUE_TOO_LONG\<close> and the message ``name cannot exceed 100 characters'', before the
  repository is called: \<open>Validate\<close> compares the number of bytes, 102, with the limit.
\<close>

theorem CreateItem_two_byte_name_rejected:
  "characterCount (concat (replicate 51 [CHR 0xC3, CHR 0xA9])) = 51 \<and>
   TrimSpace (concat (replicate 51 [CHR 0xC3, CHR 0xA9])) \<noteq> [] \<and>
   characterCount ''d'' = 1 \<and> TrimSpace ''d'' \<noteq> [] \<and>
   fst (ItemHandler_CreateItem (DynamoDBRepository_CreateItem 0x550e8400e29b41d4a716446655440000) 1
          (Inr \<lparr>cr_Name = concat (replicate 51 [CHR 0xC3, CHR 0xA9]), cr_Description = ''d''\<rparr>)
          Map.empty)
     = \<lparr>resp_StatusCode = 400,
        resp_Body = \<lparr>Success = False, Data = None,
                     Error = Some \<lparr>ei_Code = ''VALUE_TOO_LONG'',
                                   ei_Message = ''name cannot exceed 100 characters'',
                                   ei_Type = ''validation'', ei_Details = []\<rparr>\<rparr>\<rparr>"
proof -
  have d: "characterCount ''d'' = 1" "TrimSpace ''d'' \<noteq> []" by code_simp+
  have v: "CreateItemRequest_Validate
     \<lparr>cr_Name = concat (replicate 51 [CHR 0xC3, CHR 0xA9]), cr_Description = ''d''\<rparr>
     = Some ErrNameTooLong"
    using two_byte_name_facts(2,3) by (simp add: CreateItemRequest_Validate_def)
  have h: "fst (ItemHandler_CreateItem (DynamoDBRepository_CreateItem 0x550e8400e29b41d4a716446655440000) 1
          (Inr \<lparr>cr_Name = concat (replicate 51 [CHR 0xC3, CHR 0xA9]), cr_Description = ''d''\<rparr>)
          Map.empty) = WriteValidationErrorResponse ErrNameTooLong"
    by (simp add: ItemHandler_CreateItem_def v)
  show ?thesis
    using two_byte_name_facts(1,3) d by (simp add: h name_too_long_response)
qed

lemma UnmarshalMap_MarshalMap: "UnmarshalMap (MarshalMap item) = Inr item"
  by (simp add: UnmarshalMap_def MarshalMap_def unmarshalString_def unmarshalTime_def)

lemma applySet_MarshalMap:
  "applySet (ui_UpdateExpression (UpdateItem_input now key updates))
            (ui_ExpressionAttributeNames (UpdateItem_input now key updates))
            (ui_ExpressionAttributeValues (UpdateItem_input now key updates)) (MarshalMap it)
     = Some (MarshalMap (UpdateFields now it updates))"
proof -
  have "\<exists>new. applySet (ui_UpdateExpression (UpdateItem_input now key updates))
            (ui_ExpressionAttributeNames (UpdateItem_input now key updates))
            (ui_ExpressionAttributeValues (UpdateItem_input now key updates)) (MarshalMap it)
     = Some new \<and> (\<forall>k. new k = MarshalMap (UpdateFields now it updates) k)"
    by (simp add: UpdateItem_input_def Let_def MarshalMap_def UpdateFields_def)
  then show ?thesis by (metis ext)
qed

lemma DynamoDBRepository_UpdateItem_present:
  assumes "key \<noteq> []" and "UpdateItemRequest_Validate patch = None"
    and "tbl key = Some (MarshalMap it)"
  shows "DynamoDBRepository_UpdateItem now key patch tbl =
           (Inr (UpdateFields now it patch), tbl(key \<mapsto> MarshalMap (UpdateFields now it patch)))"
proof -
  have kk: "ui_Key (UpdateItem_input now key patch) = key"
    by (simp add: UpdateItem_input_def Let_def)
  have "dynamodb_UpdateItem (UpdateItem_input now key patch) tbl =
      (Inr (MarshalMap (UpdateFields now it patch)),
       tbl(key \<mapsto> MarshalMap (UpdateFields now it patch)))"
    by (simp add: dynamodb_UpdateItem_def kk assms(3) applySet_MarshalMap)
  then show ?thesis
    using assms(1,2) by (simp add: DynamoDBRepository_UpdateItem_def UnmarshalMap_MarshalMap)
qed

text \<open>
  Claim C6, as stated, fails. The claim has \<open>updated_at\<close> strictly later than
  \<open>created_at\<close> after any successful update. \<open>UpdateItem\<close> writes the reading of
  \<open>time.Now()\<close> and compares it with nothing: an update made when the clock reads the
  instant of creation, 3, or an earlier one, 2 (the clock of another host, or a clock set
  back), is answered 200 with \<open>updated_at\<close> equal to, or earlier than, \<open>created_at\<close>.
\<close>

theorem UpdateItem_clock_counterexample:
  "fst (ItemHandler_UpdateItem (DynamoDBRepository_UpdateItem 3) ''x''
          (Inr \<lparr>ur_Name = [], ur_Description = [], ur_Status = ''inactive''\<rparr>)
          [''x'' \<mapsto> MarshalMap \<lparr>ID = ''x'', Name = ''n'', Description = ''d'', CreatedAt = 3,
                                    UpdatedAt = 3, Status = ''active''\<rparr>])
     = \<lparr>resp_StatusCode = 200,
        resp_Body = \<lparr>Success = True,
                     Data = Some (DataItem \<lparr>ID = ''x'', Name = ''n'', Description = ''d'',
                                            CreatedAt = 3, UpdatedAt = 3, Status = ''inactive''\<rparr>),
                     Error = None\<rparr>\<rparr> \<and>
   \<not> ((3 :: time) < 3) \<and>
   fst (ItemHandler_UpdateItem (DynamoDBRepository_UpdateItem 2) ''x''
          (Inr \<lparr>ur_Name = [], ur_Description = [], ur_Status = ''inactive''\<rparr>)
          [''x'' \<mapsto> MarshalMap \<lparr>ID = ''x'', Name = ''n'', Description = ''d'', CreatedAt = 3,
                                    UpdatedAt = 3, Status = ''active''\<rparr>])
     = \<lparr>resp_StatusCode = 200,
        resp_Body = \<lparr>Success = True,
                     Data = Some (DataItem \<lparr>ID = ''x'', Name = ''n'', Description = ''d'',
                                            CreatedAt = 3, UpdatedAt = 2, Status = ''inactive''\<rparr>),
                     Error = None\<rparr>\<rparr> \<and>
   \<not> ((3 :: time) < 2)"
proof -
  let ?it = "\<lparr>ID = ''x'', Name = ''n'', Description = ''d'', CreatedAt = 3,
              UpdatedAt = 3, Status = ''active''\<rparr>"
  let ?p = "\<lparr>ur_Name = [], ur_Description = [], ur_Status = ''inactive''\<rparr>"
  have k: "''x'' \<noteq> []" by simp
  have v: "UpdateItemRequest_Validate ?p = None"
    by (simp add: UpdateItemRequest_Validate_def isValidStatus_def)
  have t: "[''x'' \<mapsto> MarshalMap ?it] ''x'' = Some (MarshalMap ?it)" by simp
  have r: "DynamoDBRepository_UpdateItem now ''x'' ?p [''x'' \<mapsto> MarshalMap ?it] =
      (Inr (UpdateFields now ?it ?p),
       [''x'' \<mapsto> MarshalMap ?it](''x'' \<mapsto> MarshalMap (UpdateFields now ?it ?p)))" for now
    by (rule DynamoDBRepository_UpdateItem_present
          [where tbl = "[''x'' \<mapsto> MarshalMap ?it]" and it = "?it", OF k v t])
  have u: "UpdateFields now ?it ?p = \<lparr>ID = ''x'', Name = ''n'', Description = ''d'', CreatedAt = 3,
                                 UpdatedAt = now, Status = ''inactive''\<rparr>" for now
    by (simp add: UpdateFields_def)
  have h: "fst (ItemHandler_UpdateItem (DynamoDBRepository_UpdateItem now) ''x'' (Inr ?p)
          [''x'' \<mapsto> MarshalMap ?it])
     = \<lparr>resp_StatusCode = 200,
        resp_Body = \<lparr>Success = True,
                     Data = Some (DataItem \<lparr>ID = ''x'', Name = ''n'', Description = ''d'',
                                            CreatedAt = 3, UpdatedAt = now, Status = ''inactive''\<rparr>),
                     Error = None\<rparr>\<rparr>" for now
    by (simp add: ItemHandler_UpdateItem_def v r u writeJSONResponse_def StatusOK_def)
  show ?thesis
    by (simp add: h)
qed

text \<open>
  Claim C6, amended. An update of an item of the table, by the update handler on the
  DynamoDB adapter, is answered 200 with the item as \<open>UpdateFields\<close> changes it, and that
  item is stored: the identifier and \<open>created_at\<close> are kept; the name, the description
  and the status are replaced where the patch gives a non-empty value and kept where it
  does not (a patch with only a status keeps the name and the description);
  \<open>updated_at\<close> is the reading of the clock at the update, whatever the patch holds. So
  after the update \<open>updated_at\<close> is strictly later than \<open>created_at\<close> exactly when that
  reading is later than \<open>created_at\<close>.
\<close>

theorem UpdateItem_frame:
  assumes "key \<noteq> []" and "UpdateItemRequest_Validate patch = None"
    and "tbl key = Some (MarshalMap it)"
  shows "ItemHandler_UpdateItem (DynamoDBRepository_UpdateItem now) key (Inr patch) tbl =
           (\<lparr>resp_StatusCode = 200,
             resp_Body = \<lparr>Success = True, Data = Some (DataItem (UpdateFields now it patch)),
                          Error = None\<rparr>\<rparr>,
            tbl(key \<mapsto> MarshalMap (UpdateFields now it patch))) \<and>
         ID (UpdateFields now it patch) = ID it \<and>
         CreatedAt (UpdateFields now it patch) = CreatedAt it \<and>
         UpdatedAt (UpdateFields now it patch) = now \<and>
         Name (UpdateFields now it patch) = (if ur_Name patch = [] then Name it else ur_Name patch) \<and>
         Description (UpdateFields now it patch) =
           (if ur_Description patch = [] then Description it else ur_Description patch) \<and>
         Status (UpdateFields now it patch) = (if ur_Status patch = [] then Status it else ur_Status patch) \<and>
         (ur_Name patch = [] \<and> ur_Description patch = [] \<longrightarrow>
            Name (UpdateFields now it patch) = Name it \<and>
            Description (UpdateFields now it patch) = Description it) \<and>
         (CreatedAt (UpdateFields now it patch) < UpdatedAt (UpdateFields now it patch))
           = (CreatedAt it < now)"
proof -
  have h: "ItemHandler_UpdateItem (DynamoDBRepository_UpdateItem now) key (Inr patch) tbl =
           (\<lparr>resp_StatusCode = 200,
             resp_Body = \<lparr>Success = True, Data = Some (DataItem (UpdateFields now it patch)),
                          Error = None\<rparr>\<rparr>,
            tbl(key \<mapsto> MarshalMap (UpdateFields now it patch)))"
    using assms(1,2)
    by (simp add: ItemHandler_UpdateItem_def StatusOK_def writeJSONResponse_def
          DynamoDBRepository_UpdateItem_present [where tbl = tbl and it = it, OF assms])
  have f: "ID (UpdateFields now it patch) = ID it"
    "CreatedAt (UpdateFields now it patch) = CreatedAt it"
    "UpdatedAt (UpdateFields now it patch) = now"
    "Name (UpdateFields now it patch) = (if ur_Name patch = [] then Name it else ur_Name patch)"
    "Description (UpdateFields now it patch) =
           (if ur_Description patch = [] then Description it else ur_Description patch)"
    "Status (UpdateFields now it patch) = (if ur_Status patch = [] then Status it else ur_Status patch)"
    by (simp_all add: UpdateFields_def Let_def)
  show ?thesis
    using h by (simp add: f)
qed

text \<open>
  The amended claim C6 on an item created at instant 3 and updated at instant 5 with a
  patch that holds only the status \<open>inactive\<close>.
\<close>

theorem UpdateItem_frame_witness:
  "''x'' \<noteq> [] \<and>
   UpdateItemRequest_Validate \<lparr>ur_Name = [], ur_Description = [], ur_Status = ''inactive''\<rparr> = None \<and>
   [''x'' \<mapsto> MarshalMap \<lparr>ID = ''x'', Name = ''n'', Description = ''d'', CreatedAt = 3,
                             UpdatedAt = 3, Status = ''active''\<rparr>] ''x''
     = Some (MarshalMap \<lparr>ID = ''x'', Name = ''n'', Description = ''d'', CreatedAt = 3,
                          UpdatedAt = 3, Status = ''active''\<rparr>) \<and>
   fst (ItemHandler_UpdateItem (DynamoDBRepository_UpdateItem 5) ''x''
      (Inr \<lparr>ur_Name = [], ur_Description = [], ur_Status = ''inactive''\<rparr>)
      [''x'' \<mapsto> MarshalMap \<lparr>ID = ''x'', Name = ''n'', Description = ''d'', CreatedAt = 3,
                                UpdatedAt = 3, Status = ''active''\<rparr>])
     = \<lparr>resp_StatusCode = 200,
        resp_Body = \<lparr>Success = True,
                     Data = Some (DataItem \<lparr>ID = ''x'', Name = ''n'', Description = ''d'',
                                            CreatedAt = 3, UpdatedAt = 5, Status = ''inactive''\<rparr>),
                     Error = None\<rparr>\<rparr>"
proof -
  let ?it = "\<lparr>ID = ''x'', Name = ''n'', Description = ''d'', CreatedAt = 3,
              UpdatedAt = 3, Status = ''active''\<rparr>"
  let ?p = "\<lparr>ur_Name = [], ur_Description = [], ur_Status = ''inactive''\<rparr>"
  have k: "''x'' \<noteq> []" by simp
  have v: "UpdateItemRequest_Validate ?p = None"
    by (simp add: UpdateItemRequest_Validate_def isValidStatus_def)
  have t: "[''x'' \<mapsto> MarshalMap ?it] ''x'' = Some (MarshalMap ?it)" by simp
  have u: "UpdateFields 5 ?it ?p = \<lparr>ID = ''x'', Name = ''n'', Description = ''d'', CreatedAt = 3,
                                 UpdatedAt = 5, Status = ''inactive''\<rparr>"
    by (simp add: UpdateFields_def)
  have r: "fst (ItemHandler_UpdateItem (DynamoDBRepository_UpdateItem 5) ''x'' (Inr ?p)
      [''x'' \<mapsto> MarshalMap ?it])
     = \<lparr>resp_StatusCode = 200,
        resp_Body = \<lparr>Success = True, Data = Some (DataItem (UpdateFields 5 ?it ?p)),
                     Error = None\<rparr>\<rparr>"
    using UpdateItem_frame
      [where key = "''x''" and patch = "?p" and it = "?it" and now = 5
         and tbl = "[''x'' \<mapsto> MarshalMap ?it]", OF k v t, THEN conjunct1]
    by (simp only: fst_conv)
  show ?thesis
    using k v t r by (simp only: u) simp
qed

end
